theory Spec2Isabelle
  imports Main
begin

section \<open>Storage schema (db/tables.ts)\<close>

text \<open>
  A \<open>Date\<close> is its number of milliseconds since the epoch. A column declared
  \<open>optional: true\<close> holds a value or NULL and is an \<open>option\<close>. \<open>orderIndex\<close> is a
  number that the input schemas restrict to integers.
\<close>

type_synonym date = int

record script_row =
  script_id :: string
  script_userId :: string
  script_title :: string
  script_scriptType :: "string option"
  script_formatStandard :: "string option"
  script_logline :: "string option"
  script_status :: "string option"
  script_notes :: "string option"
  script_createdAt :: date
  script_updatedAt :: date

record version_row =
  version_id :: string
  version_scriptId :: string
  version_versionLabel :: "string option"
  version_isPreferred :: bool
  version_rawContent :: string
  version_formattedContent :: "string option"
  version_createdAt :: date

record element_row =
  element_id :: string
  element_scriptVersionId :: string
  element_orderIndex :: int
  element_elementType :: string
  element_characterName :: "string option"
  element_content :: string
  element_createdAt :: date

text \<open>
  The store is the three tables, each the list of its rows in storage order. The
  \<open>primaryKey\<close> declaration of every \<open>id\<close> column is part of \<open>db_insert\<close> below. The
  \<open>references\<close> declarations are enforced by the storage engine: a row that another row
  still references cannot be deleted (\<open>db_delete_referenced\<close> below). No handler can
  break a reference in another way: every insert follows the resolution of the parent row,
  no update writes an id or a reference, and Scripts and ScriptElements are not deleted
  while referenced (no action deletes a Script, and nothing references a ScriptElement).
\<close>

record db =
  Scripts :: "script_row list"
  ScriptVersions :: "version_row list"
  ScriptElements :: "element_row list"

section \<open>Storage operations used by the handlers\<close>

text \<open>\<open>db.select().from(T).where(p)\<close>: the rows that satisfy \<open>p\<close>, in storage order.\<close>

definition db_select :: "('r \<Rightarrow> bool) \<Rightarrow> 'r list \<Rightarrow> 'r list" where
  "db_select p rows = filter p rows"

text \<open>
  \<open>db.insert(T).values(r).returning()\<close>: the row is appended and returned, unless a row
  with the same primary key is stored already, in which case the storage engine raises.
\<close>

definition db_insert :: "('r \<Rightarrow> string) \<Rightarrow> 'r \<Rightarrow> 'r list \<Rightarrow> ('r list \<times> 'r list) option" where
  "db_insert key r rows =
     (if key r \<in> set (map key rows) then None else Some ([r], rows @ [r]))"

text \<open>
  \<open>db.update(T).set(f).where(p).returning()\<close>: every row that satisfies \<open>p\<close> is replaced
  in place by \<open>f\<close> of it; the replaced rows are returned.
\<close>

definition db_update :: "('r \<Rightarrow> bool) \<Rightarrow> ('r \<Rightarrow> 'r) \<Rightarrow> 'r list \<Rightarrow> 'r list \<times> 'r list" where
  "db_update p f rows = (map f (filter p rows), map (\<lambda>r. if p r then f r else r) rows)"

text \<open>\<open>db.delete(T).where(p)\<close>: the number of rows affected and the rows that remain.\<close>

definition db_delete :: "('r \<Rightarrow> bool) \<Rightarrow> 'r list \<Rightarrow> nat \<times> 'r list" where
  "db_delete p rows = (length (filter p rows), filter (\<lambda>r. \<not> p r) rows)"

text \<open>
  The same delete on a table whose key other rows reference, \<open>refs\<close> being the references
  stored in those rows: the storage engine raises, and deletes nothing, when a row to
  delete is still referenced.
\<close>

definition db_delete_referenced ::
  "('r \<Rightarrow> bool) \<Rightarrow> ('r \<Rightarrow> string) \<Rightarrow> string list \<Rightarrow> 'r list \<Rightarrow> (nat \<times> 'r list) option" where
  "db_delete_referenced p key refs rows =
     (if \<exists>r \<in> set rows. p r \<and> key r \<in> set refs then None else Some (db_delete p rows))"

text \<open>The array destructuring \<open>const [x] = rows\<close>: the first row, or \<open>undefined\<close>.\<close>

fun first :: "'a list \<Rightarrow> 'a option" where
  "first [] = None"
| "first (x # _) = Some x"

section \<open>Errors, caller identity, responses\<close>

text \<open>
  \<open>ActionError\<close> carries the code and message the handlers throw. \<open>VALIDATION\<close> is the
  input error that \<open>defineAction\<close> raises when the payload does not satisfy the input
  schema, and \<open>CONSTRAINT\<close> is the error the storage engine raises on a primary-key or
  foreign-key violation.
\<close>

datatype error_code = UNAUTHORIZED | NOT_FOUND

datatype failure = ActionError error_code string | VALIDATION | CONSTRAINT

record user =
  user_id :: string

record locals =
  locals_user :: "user option"

record api_context =
  context_locals :: "locals option"

datatype response =
    ScriptData "script_row option"
  | VersionData "version_row option"
  | ElementData "element_row option"
  | ScriptItems "script_row list" nat
  | VersionItems "version_row list" nat
  | ElementItems "element_row list" nat
  | Success

type_synonym outcome = "(failure + response) \<times> db"

section \<open>Ownership resolver (src/actions/index.ts)\<close>

definition requireUser :: "api_context \<Rightarrow> failure + user" where
  "requireUser ctx =
     (case (case context_locals ctx of None \<Rightarrow> None | Some l \<Rightarrow> locals_user l) of
        None \<Rightarrow> Inl (ActionError UNAUTHORIZED ''You must be signed in to perform this action.'')
      | Some u \<Rightarrow> Inr u)"

definition getOwnedScript :: "db \<Rightarrow> string \<Rightarrow> string \<Rightarrow> failure + script_row" where
  "getOwnedScript d scriptId userId =
     (case first (db_select (\<lambda>s. script_id s = scriptId \<and> script_userId s = userId) (Scripts d)) of
        None \<Rightarrow> Inl (ActionError NOT_FOUND ''Script not found.'')
      | Some script \<Rightarrow> Inr script)"

definition getOwnedVersion :: "db \<Rightarrow> string \<Rightarrow> string \<Rightarrow> string \<Rightarrow> failure + version_row" where
  "getOwnedVersion d versionId scriptId userId =
     (case getOwnedScript d scriptId userId of
        Inl e \<Rightarrow> Inl e
      | Inr _ \<Rightarrow>
         (case first (db_select (\<lambda>v. version_id v = versionId \<and> version_scriptId v = scriptId)
                       (ScriptVersions d)) of
            None \<Rightarrow> Inl (ActionError NOT_FOUND ''Script version not found.'')
          | Some version \<Rightarrow> Inr version))"

section \<open>Actions\<close>

text \<open>
  \<open>defineAction({input, handler})\<close> of the framework: the payload is checked against the
  input schema first, and the handler runs only on a payload that satisfies it. A payload
  is a record whose \<open>.optional()\<close> fields are options; a payload that lacks a required
  field or carries a value of another type is outside the input types below, so a schema
  is the conjunction of its \<open>.min(1)\<close> and \<open>.refine\<close> conditions.
\<close>

definition defineAction ::
  "('i \<Rightarrow> bool) \<Rightarrow> ('i \<Rightarrow> api_context \<Rightarrow> db \<Rightarrow> outcome) \<Rightarrow> 'i \<Rightarrow> api_context \<Rightarrow> db \<Rightarrow> outcome" where
  "defineAction schema handler input ctx d =
     (if schema input then handler input ctx d else (Inl VALIDATION, d))"

definition min1 :: "string \<Rightarrow> bool" where
  "min1 s = (1 \<le> length s)"

definition min1_optional :: "string option \<Rightarrow> bool" where
  "min1_optional s = (case s of None \<Rightarrow> True | Some t \<Rightarrow> min1 t)"

subsection \<open>Scripts\<close>

record createScript_input =
  cs_title :: string
  cs_scriptType :: "string option"
  cs_formatStandard :: "string option"
  cs_logline :: "string option"
  cs_status :: "string option"
  cs_notes :: "string option"

definition createScript_schema :: "createScript_input \<Rightarrow> bool" where
  "createScript_schema input = min1 (cs_title input)"

text \<open>
  \<open>now\<close> is the reading of \<open>new Date()\<close> and \<open>uuid\<close> the value of
  \<open>crypto.randomUUID()\<close> during the call.
\<close>

definition createScript_handler ::
  "date \<Rightarrow> string \<Rightarrow> createScript_input \<Rightarrow> api_context \<Rightarrow> db \<Rightarrow> outcome" where
  "createScript_handler now uuid input ctx d =
     (case requireUser ctx of
        Inl e \<Rightarrow> (Inl e, d)
      | Inr u \<Rightarrow>
         (case db_insert script_id
                 \<lparr> script_id = uuid,
                   script_userId = user_id u,
                   script_title = cs_title input,
                   script_scriptType = cs_scriptType input,
                   script_formatStandard = cs_formatStandard input,
                   script_logline = cs_logline input,
                   script_status = cs_status input,
                   script_notes = cs_notes input,
                   script_createdAt = now,
                   script_updatedAt = now \<rparr>
                 (Scripts d) of
            None \<Rightarrow> (Inl CONSTRAINT, d)
          | Some (returning, rows) \<Rightarrow>
              (Inr (ScriptData (first returning)), d\<lparr>Scripts := rows\<rparr>)))"

definition createScript :: "date \<Rightarrow> string \<Rightarrow> createScript_input \<Rightarrow> api_context \<Rightarrow> db \<Rightarrow> outcome" where
  "createScript now uuid = defineAction createScript_schema (createScript_handler now uuid)"

record updateScript_input =
  us_id :: string
  us_title :: "string option"
  us_scriptType :: "string option"
  us_formatStandard :: "string option"
  us_logline :: "string option"
  us_status :: "string option"
  us_notes :: "string option"

definition updateScript_schema :: "updateScript_input \<Rightarrow> bool" where
  "updateScript_schema input =
     (min1 (us_id input) \<and> min1_optional (us_title input) \<and>
      (us_title input \<noteq> None \<or> us_scriptType input \<noteq> None \<or>
       us_formatStandard input \<noteq> None \<or> us_logline input \<noteq> None \<or>
       us_status input \<noteq> None \<or> us_notes input \<noteq> None))"

text \<open>The object given to \<open>.set\<close>: a key is present exactly when the payload supplies it.\<close>

definition updateScript_set :: "date \<Rightarrow> updateScript_input \<Rightarrow> script_row \<Rightarrow> script_row" where
  "updateScript_set now input s =
     (let s1 = (case us_title input of None \<Rightarrow> s | Some v \<Rightarrow> s\<lparr>script_title := v\<rparr>);
          s2 = (case us_scriptType input of None \<Rightarrow> s1 | Some v \<Rightarrow> s1\<lparr>script_scriptType := Some v\<rparr>);
          s3 = (case us_formatStandard input of None \<Rightarrow> s2
                | Some v \<Rightarrow> s2\<lparr>script_formatStandard := Some v\<rparr>);
          s4 = (case us_logline input of None \<Rightarrow> s3 | Some v \<Rightarrow> s3\<lparr>script_logline := Some v\<rparr>);
          s5 = (case us_status input of None \<Rightarrow> s4 | Some v \<Rightarrow> s4\<lparr>script_status := Some v\<rparr>);
          s6 = (case us_notes input of None \<Rightarrow> s5 | Some v \<Rightarrow> s5\<lparr>script_notes := Some v\<rparr>)
      in s6\<lparr>script_updatedAt := now\<rparr>)"

definition updateScript_handler :: "date \<Rightarrow> updateScript_input \<Rightarrow> api_context \<Rightarrow> db \<Rightarrow> outcome" where
  "updateScript_handler now input ctx d =
     (case requireUser ctx of
        Inl e \<Rightarrow> (Inl e, d)
      | Inr u \<Rightarrow>
         (case getOwnedScript d (us_id input) (user_id u) of
            Inl e \<Rightarrow> (Inl e, d)
          | Inr _ \<Rightarrow>
             (case db_update (\<lambda>s. script_id s = us_id input) (updateScript_set now input)
                     (Scripts d) of
                (returning, rows) \<Rightarrow>
                  (Inr (ScriptData (first returning)), d\<lparr>Scripts := rows\<rparr>))))"

definition updateScript :: "date \<Rightarrow> updateScript_input \<Rightarrow> api_context \<Rightarrow> db \<Rightarrow> outcome" where
  "updateScript now = defineAction updateScript_schema (updateScript_handler now)"

definition listScripts_handler :: "unit \<Rightarrow> api_context \<Rightarrow> db \<Rightarrow> outcome" where
  "listScripts_handler input ctx d =
     (case requireUser ctx of
        Inl e \<Rightarrow> (Inl e, d)
      | Inr u \<Rightarrow>
         (let scripts = db_select (\<lambda>s. script_userId s = user_id u) (Scripts d)
          in (Inr (ScriptItems scripts (length scripts)), d)))"

definition listScripts :: "unit \<Rightarrow> api_context \<Rightarrow> db \<Rightarrow> outcome" where
  "listScripts = defineAction (\<lambda>input. True) listScripts_handler"

subsection \<open>Script versions\<close>

record createScriptVersion_input =
  cv_scriptId :: string
  cv_versionLabel :: "string option"
  cv_isPreferred :: "bool option"
  cv_rawContent :: string
  cv_formattedContent :: "string option"

definition createScriptVersion_schema :: "createScriptVersion_input \<Rightarrow> bool" where
  "createScriptVersion_schema input = (min1 (cv_scriptId input) \<and> min1 (cv_rawContent input))"

definition createScriptVersion_handler ::
  "date \<Rightarrow> string \<Rightarrow> createScriptVersion_input \<Rightarrow> api_context \<Rightarrow> db \<Rightarrow> outcome" where
  "createScriptVersion_handler now uuid input ctx d =
     (case requireUser ctx of
        Inl e \<Rightarrow> (Inl e, d)
      | Inr u \<Rightarrow>
         (case getOwnedScript d (cv_scriptId input) (user_id u) of
            Inl e \<Rightarrow> (Inl e, d)
          | Inr _ \<Rightarrow>
             (case db_insert version_id
                     \<lparr> version_id = uuid,
                       version_scriptId = cv_scriptId input,
                       version_versionLabel = cv_versionLabel input,
                       version_isPreferred =
                         (case cv_isPreferred input of None \<Rightarrow> False | Some b \<Rightarrow> b),
                       version_rawContent = cv_rawContent input,
                       version_formattedContent = cv_formattedContent input,
                       version_createdAt = now \<rparr>
                     (ScriptVersions d) of
                None \<Rightarrow> (Inl CONSTRAINT, d)
              | Some (returning, rows) \<Rightarrow>
                  (Inr (VersionData (first returning)), d\<lparr>ScriptVersions := rows\<rparr>))))"

definition createScriptVersion ::
  "date \<Rightarrow> string \<Rightarrow> createScriptVersion_input \<Rightarrow> api_context \<Rightarrow> db \<Rightarrow> outcome" where
  "createScriptVersion now uuid =
     defineAction createScriptVersion_schema (createScriptVersion_handler now uuid)"

record updateScriptVersion_input =
  uv_id :: string
  uv_scriptId :: string
  uv_versionLabel :: "string option"
  uv_isPreferred :: "bool option"
  uv_rawContent :: "string option"
  uv_formattedContent :: "string option"

definition updateScriptVersion_schema :: "updateScriptVersion_input \<Rightarrow> bool" where
  "updateScriptVersion_schema input =
     (min1 (uv_id input) \<and> min1 (uv_scriptId input) \<and>
      (uv_versionLabel input \<noteq> None \<or> uv_isPreferred input \<noteq> None \<or>
       uv_rawContent input \<noteq> None \<or> uv_formattedContent input \<noteq> None))"

definition updateScriptVersion_set :: "updateScriptVersion_input \<Rightarrow> version_row \<Rightarrow> version_row" where
  "updateScriptVersion_set input v =
     (let v1 = (case uv_versionLabel input of None \<Rightarrow> v
                | Some x \<Rightarrow> v\<lparr>version_versionLabel := Some x\<rparr>);
          v2 = (case uv_isPreferred input of None \<Rightarrow> v1 | Some x \<Rightarrow> v1\<lparr>version_isPreferred := x\<rparr>);
          v3 = (case uv_rawContent input of None \<Rightarrow> v2 | Some x \<Rightarrow> v2\<lparr>version_rawContent := x\<rparr>)
      in (case uv_formattedContent input of None \<Rightarrow> v3
          | Some x \<Rightarrow> v3\<lparr>version_formattedContent := Some x\<rparr>))"

definition updateScriptVersion_handler ::
  "updateScriptVersion_input \<Rightarrow> api_context \<Rightarrow> db \<Rightarrow> outcome" where
  "updateScriptVersion_handler input ctx d =
     (case requireUser ctx of
        Inl e \<Rightarrow> (Inl e, d)
      | Inr u \<Rightarrow>
         (case getOwnedVersion d (uv_id input) (uv_scriptId input) (user_id u) of
            Inl e \<Rightarrow> (Inl e, d)
          | Inr _ \<Rightarrow>
             (case db_update (\<lambda>v. version_id v = uv_id input) (updateScriptVersion_set input)
                     (ScriptVersions d) of
                (returning, rows) \<Rightarrow>
                  (Inr (VersionData (first returning)), d\<lparr>ScriptVersions := rows\<rparr>))))"

definition updateScriptVersion :: "updateScriptVersion_input \<Rightarrow> api_context \<Rightarrow> db \<Rightarrow> outcome" where
  "updateScriptVersion = defineAction updateScriptVersion_schema updateScriptVersion_handler"

record deleteScriptVersion_input =
  dv_id :: string
  dv_scriptId :: string

definition deleteScriptVersion_schema :: "deleteScriptVersion_input \<Rightarrow> bool" where
  "deleteScriptVersion_schema input = (min1 (dv_id input) \<and> min1 (dv_scriptId input))"

text \<open>The delete runs before \<open>rowsAffected\<close> is tested, so the store it leaves is returned
  with the error too. A ScriptVersion that a ScriptElement still references is not deleted:
  the storage engine's error leaves the handler as it is.\<close>

definition deleteScriptVersion_handler ::
  "deleteScriptVersion_input \<Rightarrow> api_context \<Rightarrow> db \<Rightarrow> outcome" where
  "deleteScriptVersion_handler input ctx d =
     (case requireUser ctx of
        Inl e \<Rightarrow> (Inl e, d)
      | Inr u \<Rightarrow>
         (case getOwnedVersion d (dv_id input) (dv_scriptId input) (user_id u) of
            Inl e \<Rightarrow> (Inl e, d)
          | Inr _ \<Rightarrow>
             (case db_delete_referenced (\<lambda>v. version_id v = dv_id input) version_id
                     (map element_scriptVersionId (ScriptElements d)) (ScriptVersions d) of
                None \<Rightarrow> (Inl CONSTRAINT, d)
              | Some (rowsAffected, rows) \<Rightarrow>
                  (if rowsAffected = 0
                   then (Inl (ActionError NOT_FOUND ''Script version not found.''),
                         d\<lparr>ScriptVersions := rows\<rparr>)
                   else (Inr Success, d\<lparr>ScriptVersions := rows\<rparr>)))))"

definition deleteScriptVersion :: "deleteScriptVersion_input \<Rightarrow> api_context \<Rightarrow> db \<Rightarrow> outcome" where
  "deleteScriptVersion = defineAction deleteScriptVersion_schema deleteScriptVersion_handler"

record listScriptVersions_input =
  lv_scriptId :: string
  lv_preferredOnly :: "bool option"

definition listScriptVersions_schema :: "listScriptVersions_input \<Rightarrow> bool" where
  "listScriptVersions_schema input = min1 (lv_scriptId input)"

text \<open>\<open>preferredOnly\<close> is \<open>z.boolean().default(false)\<close>: the handler sees the default
  when the payload omits it.\<close>

definition preferredOnly :: "listScriptVersions_input \<Rightarrow> bool" where
  "preferredOnly input = (case lv_preferredOnly input of None \<Rightarrow> False | Some b \<Rightarrow> b)"

definition listScriptVersions_handler ::
  "listScriptVersions_input \<Rightarrow> api_context \<Rightarrow> db \<Rightarrow> outcome" where
  "listScriptVersions_handler input ctx d =
     (case requireUser ctx of
        Inl e \<Rightarrow> (Inl e, d)
      | Inr u \<Rightarrow>
         (case getOwnedScript d (lv_scriptId input) (user_id u) of
            Inl e \<Rightarrow> (Inl e, d)
          | Inr _ \<Rightarrow>
             (let versions =
                    db_select
                      (if preferredOnly input
                       then (\<lambda>v. version_scriptId v = lv_scriptId input \<and> version_isPreferred v = True)
                       else (\<lambda>v. version_scriptId v = lv_scriptId input))
                      (ScriptVersions d)
              in (Inr (VersionItems versions (length versions)), d))))"

definition listScriptVersions :: "listScriptVersions_input \<Rightarrow> api_context \<Rightarrow> db \<Rightarrow> outcome" where
  "listScriptVersions = defineAction listScriptVersions_schema listScriptVersions_handler"

subsection \<open>Script elements\<close>

record createScriptElement_input =
  ce_scriptId :: string
  ce_scriptVersionId :: string
  ce_orderIndex :: int
  ce_elementType :: string
  ce_characterName :: "string option"
  ce_content :: string

definition createScriptElement_schema :: "createScriptElement_input \<Rightarrow> bool" where
  "createScriptElement_schema input =
     (min1 (ce_scriptId input) \<and> min1 (ce_scriptVersionId input) \<and>
      min1 (ce_elementType input) \<and> min1 (ce_content input))"

definition createScriptElement_handler ::
  "date \<Rightarrow> string \<Rightarrow> createScriptElement_input \<Rightarrow> api_context \<Rightarrow> db \<Rightarrow> outcome" where
  "createScriptElement_handler now uuid input ctx d =
     (case requireUser ctx of
        Inl e \<Rightarrow> (Inl e, d)
      | Inr u \<Rightarrow>
         (case getOwnedVersion d (ce_scriptVersionId input) (ce_scriptId input) (user_id u) of
            Inl e \<Rightarrow> (Inl e, d)
          | Inr _ \<Rightarrow>
             (case db_insert element_id
                     \<lparr> element_id = uuid,
                       element_scriptVersionId = ce_scriptVersionId input,
                       element_orderIndex = ce_orderIndex input,
                       element_elementType = ce_elementType input,
                       element_characterName = ce_characterName input,
                       element_content = ce_content input,
                       element_createdAt = now \<rparr>
                     (ScriptElements d) of
                None \<Rightarrow> (Inl CONSTRAINT, d)
              | Some (returning, rows) \<Rightarrow>
                  (Inr (ElementData (first returning)), d\<lparr>ScriptElements := rows\<rparr>))))"

definition createScriptElement ::
  "date \<Rightarrow> string \<Rightarrow> createScriptElement_input \<Rightarrow> api_context \<Rightarrow> db \<Rightarrow> outcome" where
  "createScriptElement now uuid =
     defineAction createScriptElement_schema (createScriptElement_handler now uuid)"

record updateScriptElement_input =
  ue_id :: string
  ue_scriptId :: string
  ue_scriptVersionId :: string
  ue_orderIndex :: "int option"
  ue_elementType :: "string option"
  ue_characterName :: "string option"
  ue_content :: "string option"

definition updateScriptElement_schema :: "updateScriptElement_input \<Rightarrow> bool" where
  "updateScriptElement_schema input =
     (min1 (ue_id input) \<and> min1 (ue_scriptId input) \<and> min1 (ue_scriptVersionId input) \<and>
      (ue_orderIndex input \<noteq> None \<or> ue_elementType input \<noteq> None \<or>
       ue_characterName input \<noteq> None \<or> ue_content input \<noteq> None))"

definition updateScriptElement_set :: "updateScriptElement_input \<Rightarrow> element_row \<Rightarrow> element_row" where
  "updateScriptElement_set input e =
     (let e1 = (case ue_orderIndex input of None \<Rightarrow> e | Some x \<Rightarrow> e\<lparr>element_orderIndex := x\<rparr>);
          e2 = (case ue_elementType input of None \<Rightarrow> e1 | Some x \<Rightarrow> e1\<lparr>element_elementType := x\<rparr>);
          e3 = (case ue_characterName input of None \<Rightarrow> e2
                | Some x \<Rightarrow> e2\<lparr>element_characterName := Some x\<rparr>)
      in (case ue_content input of None \<Rightarrow> e3 | Some x \<Rightarrow> e3\<lparr>element_content := x\<rparr>))"

definition updateScriptElement_handler ::
  "updateScriptElement_input \<Rightarrow> api_context \<Rightarrow> db \<Rightarrow> outcome" where
  "updateScriptElement_handler input ctx d =
     (case requireUser ctx of
        Inl e \<Rightarrow> (Inl e, d)
      | Inr u \<Rightarrow>
         (case getOwnedVersion d (ue_scriptVersionId input) (ue_scriptId input) (user_id u) of
            Inl e \<Rightarrow> (Inl e, d)
          | Inr _ \<Rightarrow>
             (case first (db_select (\<lambda>e. element_id e = ue_id input) (ScriptElements d)) of
                None \<Rightarrow> (Inl (ActionError NOT_FOUND ''Script element not found.''), d)
              | Some existing \<Rightarrow>
                 (case db_update (\<lambda>e. element_id e = ue_id input) (updateScriptElement_set input)
                         (ScriptElements d) of
                    (returning, rows) \<Rightarrow>
                      (Inr (ElementData (first returning)), d\<lparr>ScriptElements := rows\<rparr>)))))"

definition updateScriptElement :: "updateScriptElement_input \<Rightarrow> api_context \<Rightarrow> db \<Rightarrow> outcome" where
  "updateScriptElement = defineAction updateScriptElement_schema updateScriptElement_handler"

record deleteScriptElement_input =
  de_id :: string
  de_scriptId :: string
  de_scriptVersionId :: string

definition deleteScriptElement_schema :: "deleteScriptElement_input \<Rightarrow> bool" where
  "deleteScriptElement_schema input =
     (min1 (de_id input) \<and> min1 (de_scriptId input) \<and> min1 (de_scriptVersionId input))"

definition deleteScriptElement_handler ::
  "deleteScriptElement_input \<Rightarrow> api_context \<Rightarrow> db \<Rightarrow> outcome" where
  "deleteScriptElement_handler input ctx d =
     (case requireUser ctx of
        Inl e \<Rightarrow> (Inl e, d)
      | Inr u \<Rightarrow>
         (case getOwnedVersion d (de_scriptVersionId input) (de_scriptId input) (user_id u) of
            Inl e \<Rightarrow> (Inl e, d)
          | Inr _ \<Rightarrow>
             (case db_delete (\<lambda>e. element_id e = de_id input) (ScriptElements d) of
                (rowsAffected, rows) \<Rightarrow>
                  (if rowsAffected = 0
                   then (Inl (ActionError NOT_FOUND ''Script element not found.''),
                         d\<lparr>ScriptElements := rows\<rparr>)
                   else (Inr Success, d\<lparr>ScriptElements := rows\<rparr>)))))"

definition deleteScriptElement :: "deleteScriptElement_input \<Rightarrow> api_context \<Rightarrow> db \<Rightarrow> outcome" where
  "deleteScriptElement = defineAction deleteScriptElement_schema deleteScriptElement_handler"

record listScriptElements_input =
  le_scriptId :: string
  le_scriptVersionId :: string

definition listScriptElements_schema :: "listScriptElements_input \<Rightarrow> bool" where
  "listScriptElements_schema input = (min1 (le_scriptId input) \<and> min1 (le_scriptVersionId input))"

definition listScriptElements_handler ::
  "listScriptElements_input \<Rightarrow> api_context \<Rightarrow> db \<Rightarrow> outcome" where
  "listScriptElements_handler input ctx d =
     (case requireUser ctx of
        Inl e \<Rightarrow> (Inl e, d)
      | Inr u \<Rightarrow>
         (case getOwnedVersion d (le_scriptVersionId input) (le_scriptId input) (user_id u) of
            Inl e \<Rightarrow> (Inl e, d)
          | Inr _ \<Rightarrow>
             (let elements =
                    db_select (\<lambda>e. element_scriptVersionId e = le_scriptVersionId input)
                      (ScriptElements d)
              in (Inr (ElementItems elements (length elements)), d))))"

definition listScriptElements :: "listScriptElements_input \<Rightarrow> api_context \<Rightarrow> db \<Rightarrow> outcome" where
  "listScriptElements = defineAction listScriptElements_schema listScriptElements_handler"

subsection \<open>The exported \<open>server\<close> object\<close>

text \<open>One constructor per action of \<open>server\<close>, carrying that action's payload.\<close>

datatype request =
    CreateScript createScript_input
  | UpdateScript updateScript_input
  | ListScripts
  | CreateScriptVersion createScriptVersion_input
  | UpdateScriptVersion updateScriptVersion_input
  | DeleteScriptVersion deleteScriptVersion_input
  | ListScriptVersions listScriptVersions_input
  | CreateScriptElement createScriptElement_input
  | UpdateScriptElement updateScriptElement_input
  | DeleteScriptElement deleteScriptElement_input
  | ListScriptElements listScriptElements_input

fun server :: "date \<Rightarrow> string \<Rightarrow> request \<Rightarrow> api_context \<Rightarrow> db \<Rightarrow> outcome" where
  "server now uuid (CreateScript i) = createScript now uuid i"
| "server now uuid (UpdateScript i) = updateScript now i"
| "server now uuid ListScripts = listScripts ()"
| "server now uuid (CreateScriptVersion i) = createScriptVersion now uuid i"
| "server now uuid (UpdateScriptVersion i) = updateScriptVersion i"
| "server now uuid (DeleteScriptVersion i) = deleteScriptVersion i"
| "server now uuid (ListScriptVersions i) = listScriptVersions i"
| "server now uuid (CreateScriptElement i) = createScriptElement now uuid i"
| "server now uuid (UpdateScriptElement i) = updateScriptElement i"
| "server now uuid (DeleteScriptElement i) = deleteScriptElement i"
| "server now uuid (ListScriptElements i) = listScriptElements i"

text \<open>The input schema of each action.\<close>

fun schema_ok :: "request \<Rightarrow> bool" where
  "schema_ok (CreateScript i) = createScript_schema i"
| "schema_ok (UpdateScript i) = updateScript_schema i"
| "schema_ok ListScripts = True"
| "schema_ok (CreateScriptVersion i) = createScriptVersion_schema i"
| "schema_ok (UpdateScriptVersion i) = updateScriptVersion_schema i"
| "schema_ok (DeleteScriptVersion i) = deleteScriptVersion_schema i"
| "schema_ok (ListScriptVersions i) = listScriptVersions_schema i"
| "schema_ok (CreateScriptElement i) = createScriptElement_schema i"
| "schema_ok (UpdateScriptElement i) = updateScriptElement_schema i"
| "schema_ok (DeleteScriptElement i) = deleteScriptElement_schema i"
| "schema_ok (ListScriptElements i) = listScriptElements_schema i"

text \<open>A caller with identity \<open>uid\<close>, and a call without an authenticated caller.\<close>

definition signed_in :: "string \<Rightarrow> api_context" where
  "signed_in uid = \<lparr> context_locals = Some \<lparr> locals_user = Some \<lparr> user_id = uid \<rparr> \<rparr> \<rparr>"

definition anonymous :: api_context where
  "anonymous = \<lparr> context_locals = Some \<lparr> locals_user = None \<rparr> \<rparr>"

definition authenticated :: "api_context \<Rightarrow> bool" where
  "authenticated ctx = (case requireUser ctx of Inl _ \<Rightarrow> False | Inr _ \<Rightarrow> True)"

section \<open>Sequences of calls\<close>

text \<open>
  A call is the clock reading and the fresh identifier of its run, the request and the
  caller's context. The calls of a sequence run one after the other, each on the store
  the previous one left.
\<close>

type_synonym call = "date \<times> string \<times> request \<times> api_context"

fun run :: "call list \<Rightarrow> db \<Rightarrow> db" where
  "run [] d = d"
| "run ((now, uuid, r, ctx) # cs) d = run cs (snd (server now uuid r ctx d))"

definition empty_db :: db where
  "empty_db = \<lparr> Scripts = [], ScriptVersions = [], ScriptElements = [] \<rparr>"

text \<open>The stored \<open>userId\<close> of every Script row whose id is \<open>sid\<close>, in storage order.\<close>

definition owners :: "db \<Rightarrow> string \<Rightarrow> string list" where
  "owners d sid = map script_userId (filter (\<lambda>s. script_id s = sid) (Scripts d))"

text \<open>The clock readings of a sequence of calls never go back.\<close>

fun clock_of :: "call \<Rightarrow> date" where
  "clock_of (now, uuid, r, ctx) = now"

definition monotone_clock :: "call list \<Rightarrow> bool" where
  "monotone_clock cs = sorted (map clock_of cs)"

section \<open>A worked store\<close>

text \<open>
  Two callers, each with a Script and a ScriptVersion of their own; the first also has a
  ScriptElement. The calls that build the store from the empty one, and the store they
  leave, serve as the concrete inputs of the properties below.
\<close>

definition heist :: createScript_input where
  "heist = \<lparr> cs_title = ''Heist'', cs_scriptType = None, cs_formatStandard = None,
             cs_logline = Some ''A bank job'', cs_status = None, cs_notes = None \<rparr>"

definition road :: createScript_input where
  "road = \<lparr> cs_title = ''Road'', cs_scriptType = None, cs_formatStandard = None,
            cs_logline = None, cs_status = Some ''draft'', cs_notes = None \<rparr>"

definition heist_row :: script_row where
  "heist_row = \<lparr> script_id = ''s1'', script_userId = ''u1'', script_title = ''Heist'',
                  script_scriptType = None, script_formatStandard = None,
                  script_logline = Some ''A bank job'', script_status = None,
                  script_notes = None, script_createdAt = 1, script_updatedAt = 1 \<rparr>"

definition road_row :: script_row where
  "road_row = \<lparr> script_id = ''s2'', script_userId = ''u2'', script_title = ''Road'',
                 script_scriptType = None, script_formatStandard = None,
                 script_logline = None, script_status = Some ''draft'',
                 script_notes = None, script_createdAt = 4, script_updatedAt = 4 \<rparr>"

definition bank_version :: version_row where
  "bank_version = \<lparr> version_id = ''v1'', version_scriptId = ''s1'',
                     version_versionLabel = None, version_isPreferred = False,
                     version_rawContent = ''INT. BANK'', version_formattedContent = None,
                     version_createdAt = 2 \<rparr>"

definition road_version :: version_row where
  "road_version = \<lparr> version_id = ''v2'', version_scriptId = ''s2'',
                     version_versionLabel = Some ''final'', version_isPreferred = True,
                     version_rawContent = ''EXT. ROAD'', version_formattedContent = None,
                     version_createdAt = 5 \<rparr>"

definition bank_element :: element_row where
  "bank_element = \<lparr> element_id = ''e1'', element_scriptVersionId = ''v1'',
                     element_orderIndex = 0, element_elementType = ''scene-heading'',
                     element_characterName = None, element_content = ''INT. BANK'',
                     element_createdAt = 3 \<rparr>"

definition setup_calls :: "call list" where
  "setup_calls =
     [(1, ''s1'', CreateScript heist, signed_in ''u1''),
      (2, ''v1'', CreateScriptVersion
           \<lparr> cv_scriptId = ''s1'', cv_versionLabel = None, cv_isPreferred = None,
             cv_rawContent = ''INT. BANK'', cv_formattedContent = None \<rparr>, signed_in ''u1''),
      (3, ''e1'', CreateScriptElement
           \<lparr> ce_scriptId = ''s1'', ce_scriptVersionId = ''v1'', ce_orderIndex = 0,
             ce_elementType = ''scene-heading'', ce_characterName = None,
             ce_content = ''INT. BANK'' \<rparr>, signed_in ''u1''),
      (4, ''s2'', CreateScript road, signed_in ''u2''),
      (5, ''v2'', CreateScriptVersion
           \<lparr> cv_scriptId = ''s2'', cv_versionLabel = Some ''final'', cv_isPreferred = Some True,
             cv_rawContent = ''EXT. ROAD'', cv_formattedContent = None \<rparr>, signed_in ''u2'')]"

definition two_tenants :: db where
  "two_tenants = \<lparr> Scripts = [heist_row, road_row],
                    ScriptVersions = [bank_version, road_version],
                    ScriptElements = [bank_element] \<rparr>"

definition three_versions :: db where
  "three_versions = two_tenants\<lparr>ScriptVersions :=
      [bank_version, road_version,
       road_version\<lparr>version_id := ''v3'', version_isPreferred := False\<rparr>]\<rparr>"

text \<open>
  A patch of \<open>status\<close> alone on the first Script, the row it leaves when applied at
  clock reading 7, a patch without a field, and three later calls: the second caller
  patching the first caller's Script, the first caller patching their own, and the second
  caller creating another Script.
\<close>

definition status_patch :: updateScript_input where
  "status_patch = \<lparr> us_id = ''s1'', us_title = None, us_scriptType = None,
                     us_formatStandard = None, us_logline = None, us_status = Some ''final'',
                     us_notes = None \<rparr>"

definition heist_final :: script_row where
  "heist_final = heist_row\<lparr>script_status := Some ''final'', script_updatedAt := 7\<rparr>"

definition empty_patch :: updateScript_input where
  "empty_patch = \<lparr> us_id = ''s1'', us_title = None, us_scriptType = None,
                    us_formatStandard = None, us_logline = None, us_status = None,
                    us_notes = None \<rparr>"

definition later_calls :: "call list" where
  "later_calls =
     [(6, ''x1'', UpdateScript status_patch, signed_in ''u2''),
      (7, ''x2'', UpdateScript status_patch, signed_in ''u1''),
      (8, ''s3'', CreateScript heist, signed_in ''u2'')]"

text \<open>
  Patches by the first caller on their own ScriptVersion and ScriptElement, and a patch and
  a delete by the second caller that name the second caller's own Script and ScriptVersion
  together with the id of the first caller's ScriptElement.
\<close>

definition prefer_patch :: updateScriptVersion_input where
  "prefer_patch = \<lparr> uv_id = ''v1'', uv_scriptId = ''s1'', uv_versionLabel = None,
                     uv_isPreferred = Some True, uv_rawContent = None,
                     uv_formattedContent = None \<rparr>"

definition blank_patch :: updateScriptVersion_input where
  "blank_patch = \<lparr> uv_id = ''v1'', uv_scriptId = ''s1'', uv_versionLabel = None,
                    uv_isPreferred = None, uv_rawContent = Some [],
                    uv_formattedContent = None \<rparr>"

definition content_patch :: updateScriptElement_input where
  "content_patch = \<lparr> ue_id = ''e1'', ue_scriptId = ''s1'', ue_scriptVersionId = ''v1'',
                      ue_orderIndex = None, ue_elementType = None, ue_characterName = None,
                      ue_content = Some ''INT. VAULT'' \<rparr>"

definition foreign_patch :: updateScriptElement_input where
  "foreign_patch = \<lparr> ue_id = ''e1'', ue_scriptId = ''s2'', ue_scriptVersionId = ''v2'',
                      ue_orderIndex = None, ue_elementType = None, ue_characterName = None,
                      ue_content = Some ''EXT. ROAD'' \<rparr>"

definition foreign_delete :: deleteScriptElement_input where
  "foreign_delete = \<lparr> de_id = ''e1'', de_scriptId = ''s2'', de_scriptVersionId = ''v2'' \<rparr>"

section \<open>Properties\<close>

subsection \<open>Unfolding and evaluating the actions\<close>

lemmas action_defs =
  createScript_def updateScript_def listScripts_def
  createScriptVersion_def updateScriptVersion_def deleteScriptVersion_def listScriptVersions_def
  createScriptElement_def updateScriptElement_def deleteScriptElement_def listScriptElements_def

lemmas handler_defs =
  createScript_handler_def updateScript_handler_def listScripts_handler_def
  createScriptVersion_handler_def updateScriptVersion_handler_def
  deleteScriptVersion_handler_def listScriptVersions_handler_def
  createScriptElement_handler_def updateScriptElement_handler_def
  deleteScriptElement_handler_def listScriptElements_handler_def

lemma requireUser_signed_in: "requireUser (signed_in u) = Inr \<lparr> user_id = u \<rparr>"
  by (simp add: requireUser_def signed_in_def)

lemma requireUser_anonymous:
  "requireUser anonymous = Inl (ActionError UNAUTHORIZED ''You must be signed in to perform this action.'')"
  by (simp add: requireUser_def anonymous_def)

lemmas schema_defs =
  createScript_schema_def updateScript_schema_def createScriptVersion_schema_def
  updateScriptVersion_schema_def deleteScriptVersion_schema_def listScriptVersions_schema_def
  createScriptElement_schema_def updateScriptElement_schema_def deleteScriptElement_schema_def
  listScriptElements_schema_def min1_def min1_optional_def

lemmas eval_defs =
  action_defs handler_defs schema_defs defineAction_def requireUser_def signed_in_def
  anonymous_def getOwnedScript_def getOwnedVersion_def db_select_def db_insert_def
  db_update_def db_delete_def db_delete_referenced_def empty_db_def Let_def preferredOnly_def
  updateScript_set_def updateScriptVersion_set_def updateScriptElement_set_def

lemmas example_defs =
  heist_def road_def heist_row_def road_row_def bank_version_def road_version_def
  bank_element_def two_tenants_def status_patch_def heist_final_def empty_patch_def
  prefer_patch_def blank_patch_def content_patch_def foreign_patch_def foreign_delete_def

lemma run_setup_calls: "run setup_calls empty_db = two_tenants"
  by (simp add: setup_calls_def eval_defs example_defs)

lemma createScript_heist:
  "createScript 1 ''s1'' heist (signed_in ''u1'') empty_db
     = (Inr (ScriptData (Some heist_row)),
        \<lparr> Scripts = [heist_row], ScriptVersions = [], ScriptElements = [] \<rparr>)"
  by (simp add: eval_defs example_defs)

lemma run_tail_setup:
  "run (tl setup_calls) \<lparr> Scripts = [heist_row], ScriptVersions = [], ScriptElements = [] \<rparr>
     = two_tenants"
  by (simp add: setup_calls_def eval_defs example_defs)

lemma run_later_calls:
  "run later_calls two_tenants =
     two_tenants\<lparr>Scripts := [heist_final, road_row,
        \<lparr> script_id = ''s3'', script_userId = ''u2'', script_title = ''Heist'',
          script_scriptType = None, script_formatStandard = None,
          script_logline = Some ''A bank job'', script_status = None,
          script_notes = None, script_createdAt = 8, script_updatedAt = 8 \<rparr>]\<rparr>"
  by (simp add: later_calls_def eval_defs example_defs)

lemma updateScript_status_patch:
  "updateScript 7 status_patch (signed_in ''u1'') two_tenants =
     (Inr (ScriptData (Some heist_final)), two_tenants\<lparr>Scripts := [heist_final, road_row]\<rparr>)"
  by (simp add: eval_defs example_defs)

lemma not_authenticated_anonymous: "\<not> authenticated anonymous"
  by (simp add: authenticated_def requireUser_anonymous)



lemma getOwnedVersion_road: "getOwnedVersion two_tenants ''v2'' ''s2'' ''u2'' = Inr road_version"
  by (simp add: eval_defs example_defs)

lemma updateScriptVersion_prefer_patch:
  "updateScriptVersion prefer_patch (signed_in ''u1'') two_tenants =
     (Inr (VersionData (Some (bank_version\<lparr>version_isPreferred := True\<rparr>))),
      two_tenants\<lparr>ScriptVersions := [bank_version\<lparr>version_isPreferred := True\<rparr>, road_version]\<rparr>)"
  by (simp add: eval_defs example_defs)

lemma updateScriptElement_content_patch:
  "updateScriptElement content_patch (signed_in ''u1'') two_tenants =
     (Inr (ElementData (Some (bank_element\<lparr>element_content := ''INT. VAULT''\<rparr>))),
      two_tenants\<lparr>ScriptElements := [bank_element\<lparr>element_content := ''INT. VAULT''\<rparr>]\<rparr>)"
  by (simp add: eval_defs example_defs)

lemma run_append: "run (xs @ ys) d = run ys (run xs d)"
  by (induction xs arbitrary: d) auto

lemma updateScriptVersion_blank_patch:
  "updateScriptVersion blank_patch (signed_in ''u1'') two_tenants =
     (Inr (VersionData (Some (bank_version\<lparr>version_rawContent := []\<rparr>))),
      two_tenants\<lparr>ScriptVersions := [bank_version\<lparr>version_rawContent := []\<rparr>, road_version]\<rparr>)"
  by (simp add: eval_defs example_defs)

lemma deleteScriptElement_foreign:
  "deleteScriptElement foreign_delete (signed_in ''u2'') two_tenants
     = (Inr Success, two_tenants\<lparr>ScriptElements := []\<rparr>)"
  by (simp add: eval_defs example_defs)

lemma updateScriptElement_foreign:
  "updateScriptElement foreign_patch (signed_in ''u2'') two_tenants
     = (Inr (ElementData (Some (bank_element\<lparr>element_content := ''EXT. ROAD''\<rparr>))),
        two_tenants\<lparr>ScriptElements := [bank_element\<lparr>element_content := ''EXT. ROAD''\<rparr>]\<rparr>)"
  by (simp add: eval_defs example_defs)

lemma getOwnedVersion_bank_foreign:
  "getOwnedVersion two_tenants ''v1'' ''s1'' ''u2''
     = Inl (ActionError NOT_FOUND ''Script not found.'')"
  by (simp add: eval_defs example_defs)

subsection \<open>Resolving ownership\<close>

lemma first_filter_None: "first (filter p xs) = None \<longleftrightarrow> (\<forall>x \<in> set xs. \<not> p x)"
  by (induction xs) auto

lemma first_filter_Some: "first (filter p xs) = Some x \<Longrightarrow> x \<in> set xs \<and> p x"
  by (induction xs) (auto split: if_splits)

lemma getOwnedScript_Inr:
  "getOwnedScript d sid uid = Inr s \<Longrightarrow> s \<in> set (Scripts d) \<and> script_id s = sid \<and> script_userId s = uid"
  by (auto simp: getOwnedScript_def db_select_def split: option.splits dest: first_filter_Some)

lemma getOwnedScript_Inl:
  "getOwnedScript d sid uid = Inl e \<Longrightarrow>
     e = ActionError NOT_FOUND ''Script not found.'' \<and>
     (\<forall>s \<in> set (Scripts d). \<not> (script_id s = sid \<and> script_userId s = uid))"
  by (auto simp: getOwnedScript_def db_select_def first_filter_None split: option.splits)

lemma getOwnedScript_owners:
  "(\<exists>s. getOwnedScript d sid uid = Inr s) \<longleftrightarrow> uid \<in> set (owners d sid)"
proof
  assume "\<exists>s. getOwnedScript d sid uid = Inr s"
  then obtain s where "getOwnedScript d sid uid = Inr s" ..
  from getOwnedScript_Inr [OF this] show "uid \<in> set (owners d sid)"
    by (auto simp: owners_def)
next
  assume "uid \<in> set (owners d sid)"
  then obtain s where "s \<in> set (Scripts d)" "script_id s = sid" "script_userId s = uid"
    by (auto simp: owners_def)
  then show "\<exists>s. getOwnedScript d sid uid = Inr s"
    by (cases "getOwnedScript d sid uid") (auto dest: getOwnedScript_Inl)
qed

lemma updateScript_set_keeps:
  "script_id (updateScript_set now i s) = script_id s"
  "script_userId (updateScript_set now i s) = script_userId s"
  "script_createdAt (updateScript_set now i s) = script_createdAt s"
  "script_updatedAt (updateScript_set now i s) = now"
  by (simp_all add: updateScript_set_def Let_def split: option.splits)

lemma Scripts_createScript:
  "Scripts (snd (createScript now uuid i ctx d)) = Scripts d \<or>
   (\<exists>s. Scripts (snd (createScript now uuid i ctx d)) = Scripts d @ [s] \<and>
        script_id s = uuid \<and> uuid \<notin> script_id ` set (Scripts d))"
  by (auto simp: createScript_def defineAction_def createScript_handler_def db_insert_def
      split: sum.splits if_splits)

lemma Scripts_updateScript:
  "Scripts (snd (updateScript now i ctx d)) = Scripts d \<or>
   Scripts (snd (updateScript now i ctx d)) =
     map (\<lambda>s. if script_id s = us_id i then updateScript_set now i s else s) (Scripts d)"
  by (auto simp: updateScript_def defineAction_def updateScript_handler_def db_update_def
      split: sum.splits if_splits)

lemma Scripts_other:
  "Scripts (snd (listScripts u ctx d)) = Scripts d"
  "Scripts (snd (createScriptVersion now uuid i1 ctx d)) = Scripts d"
  "Scripts (snd (updateScriptVersion i2 ctx d)) = Scripts d"
  "Scripts (snd (deleteScriptVersion i3 ctx d)) = Scripts d"
  "Scripts (snd (listScriptVersions i4 ctx d)) = Scripts d"
  "Scripts (snd (createScriptElement now uuid i5 ctx d)) = Scripts d"
  "Scripts (snd (updateScriptElement i6 ctx d)) = Scripts d"
  "Scripts (snd (deleteScriptElement i7 ctx d)) = Scripts d"
  "Scripts (snd (listScriptElements i8 ctx d)) = Scripts d"
  by (auto simp: action_defs defineAction_def handler_defs db_insert_def db_update_def
      db_delete_def Let_def split: sum.splits option.splits if_splits)

lemma owners_map_update:
  "map script_userId (filter (\<lambda>s. script_id s = sid)
      (map (\<lambda>s. if script_id s = x then updateScript_set now i s else s) rows))
   = map script_userId (filter (\<lambda>s. script_id s = sid) rows)"
  by (induction rows) (auto simp: updateScript_set_keeps)

lemma owners_updateScript: "owners (snd (updateScript now i ctx d)) sid = owners d sid"
  using Scripts_updateScript [of now i ctx d]
  by (auto simp: owners_def owners_map_update)

lemma owners_createScript:
  "owners d sid \<noteq> [] \<Longrightarrow> owners (snd (createScript now uuid i ctx d)) sid = owners d sid"
  using Scripts_createScript [of now uuid i ctx d]
  by (auto simp: owners_def filter_empty_conv)

lemma owners_server:
  "owners d sid \<noteq> [] \<Longrightarrow> owners (snd (server now uuid r ctx d)) sid = owners d sid"
  by (cases r) (simp_all add: owners_updateScript owners_createScript, simp_all add: owners_def Scripts_other)

lemma owners_run:
  "owners d sid \<noteq> [] \<Longrightarrow> owners (run cs d) sid = owners d sid"
proof (induction cs arbitrary: d)
  case Nil
  then show ?case by simp
next
  case (Cons c cs)
  obtain now uuid r ctx where c: "c = (now, uuid, r, ctx)" by (cases c) auto
  have "owners (snd (server now uuid r ctx d)) sid = owners d sid"
    using Cons.prems by (rule owners_server)
  with Cons show ?case by (simp add: c)
qed

lemma createScript_success:
  assumes "createScript now uuid i ctx d = (Inr r, d')"
  shows "\<exists>u s. requireUser ctx = Inr u \<and> r = ScriptData (Some s) \<and> script_id s = uuid \<and>
           script_userId s = user_id u \<and> Scripts d' = Scripts d @ [s] \<and>
           uuid \<notin> script_id ` set (Scripts d) \<and> createScript_schema i"
  using assms
  by (auto simp: createScript_def defineAction_def createScript_handler_def db_insert_def
      split: sum.splits if_splits)


text \<open>
  Claim C2. \<open>getOwnedScript\<close> returns a stored Script exactly when a row with the given
  id and the given userId exists, and fails with NOT_FOUND otherwise.
  After a successful \<open>createScript\<close> by a caller, and after any further calls, resolving
  the new id with that caller's identity succeeds, and resolving it with any other
  identity fails with the very error that resolving an id stored nowhere gives.
\<close>

theorem getOwnedScript_owner_only:
  "((\<exists>s \<in> set (Scripts d). script_id s = sid \<and> script_userId s = uid) \<longrightarrow>
      (\<exists>s \<in> set (Scripts d). script_id s = sid \<and> script_userId s = uid \<and>
         getOwnedScript d sid uid = Inr s)) \<and>
   ((\<forall>s \<in> set (Scripts d). \<not> (script_id s = sid \<and> script_userId s = uid)) \<longrightarrow>
      getOwnedScript d sid uid = Inl (ActionError NOT_FOUND ''Script not found.'')) \<and>
   (createScript now uuid i ctx d = (Inr r, d') \<and> requireUser ctx = Inr u \<longrightarrow>
      (\<exists>s. r = ScriptData (Some s) \<and> getOwnedScript d' uuid (user_id u) = Inr s) \<and>
      (\<exists>s. getOwnedScript (run cs d') uuid (user_id u) = Inr s \<and>
           script_id s = uuid \<and> script_userId s = user_id u) \<and>
      (\<forall>v. v \<noteq> user_id u \<longrightarrow>
           getOwnedScript (run cs d') uuid v = Inl (ActionError NOT_FOUND ''Script not found.'')) \<and>
      (\<forall>missing v. missing \<notin> script_id ` set (Scripts (run cs d')) \<longrightarrow>
           getOwnedScript (run cs d') missing v
             = Inl (ActionError NOT_FOUND ''Script not found.'')))"
proof (intro conjI impI)
  assume "\<exists>s \<in> set (Scripts d). script_id s = sid \<and> script_userId s = uid"
  then have "uid \<in> set (owners d sid)" by (auto simp: owners_def)
  then obtain s where "getOwnedScript d sid uid = Inr s"
    using getOwnedScript_owners by blast
  with getOwnedScript_Inr [OF this]
  show "\<exists>s \<in> set (Scripts d). script_id s = sid \<and> script_userId s = uid \<and>
          getOwnedScript d sid uid = Inr s"
    by blast
next
  assume "\<forall>s \<in> set (Scripts d). \<not> (script_id s = sid \<and> script_userId s = uid)"
  then show "getOwnedScript d sid uid = Inl (ActionError NOT_FOUND ''Script not found.'')"
    by (cases "getOwnedScript d sid uid") (auto dest: getOwnedScript_Inr getOwnedScript_Inl)
next
  assume a: "createScript now uuid i ctx d = (Inr r, d') \<and> requireUser ctx = Inr u"
  from createScript_success [of now uuid i ctx d r d'] a
  obtain s where s: "r = ScriptData (Some s)" "script_id s = uuid"
    "script_userId s = user_id u" "Scripts d' = Scripts d @ [s]"
    "uuid \<notin> script_id ` set (Scripts d)"
    by auto
  have filt: "filter (\<lambda>x. script_id x = uuid) (Scripts d) = []"
    using s(5) by (auto simp: filter_empty_conv)
  have own: "owners d' uuid = [user_id u]"
    using s filt by (simp add: owners_def)
  have run_own: "owners (run cs d') uuid = [user_id u]"
    using owners_run [of d' uuid cs] own by simp
  have filt2: "filter (\<lambda>x. script_id x = uuid \<and> script_userId x = user_id u) (Scripts d) = []"
    using s(5) by (auto simp: filter_empty_conv)
  show "\<exists>s. r = ScriptData (Some s) \<and> getOwnedScript d' uuid (user_id u) = Inr s"
    using s filt2 by (simp add: getOwnedScript_def db_select_def)
  have "user_id u \<in> set (owners (run cs d') uuid)" using run_own by simp
  then obtain s' where s': "getOwnedScript (run cs d') uuid (user_id u) = Inr s'"
    using getOwnedScript_owners by blast
  from getOwnedScript_Inr [OF s'] s'
  show "\<exists>s. getOwnedScript (run cs d') uuid (user_id u) = Inr s \<and>
          script_id s = uuid \<and> script_userId s = user_id u"
    by blast
  show "\<forall>v. v \<noteq> user_id u \<longrightarrow>
          getOwnedScript (run cs d') uuid v = Inl (ActionError NOT_FOUND ''Script not found.'')"
  proof (intro allI impI)
    fix v assume "v \<noteq> user_id u"
    then have "v \<notin> set (owners (run cs d') uuid)" using run_own by simp
    then have "\<not> (\<exists>s. getOwnedScript (run cs d') uuid v = Inr s)"
      using getOwnedScript_owners by blast
    then show "getOwnedScript (run cs d') uuid v = Inl (ActionError NOT_FOUND ''Script not found.'')"
      by (cases "getOwnedScript (run cs d') uuid v") (auto dest: getOwnedScript_Inl)
  qed
  show "\<forall>missing v. missing \<notin> script_id ` set (Scripts (run cs d')) \<longrightarrow>
          getOwnedScript (run cs d') missing v = Inl (ActionError NOT_FOUND ''Script not found.'')"
  proof (intro allI impI)
    fix missing v assume m: "missing \<notin> script_id ` set (Scripts (run cs d'))"
    show "getOwnedScript (run cs d') missing v = Inl (ActionError NOT_FOUND ''Script not found.'')"
    proof (cases "getOwnedScript (run cs d') missing v")
      case (Inl e)
      then show ?thesis by (auto dest: getOwnedScript_Inl)
    next
      case (Inr s)
      from getOwnedScript_Inr [OF this] m show ?thesis by auto
    qed
  qed
qed


theorem getOwnedScript_owner_only_witness:
  "(\<exists>s \<in> set (Scripts two_tenants). script_id s = ''s1'' \<and> script_userId s = ''u1'' \<and>
       getOwnedScript two_tenants ''s1'' ''u1'' = Inr s) \<and>
   \<not> (\<exists>s \<in> set (Scripts two_tenants). script_id s = ''s1'' \<and> script_userId s = ''u2'') \<and>
   getOwnedScript two_tenants ''s1'' ''u2'' = Inl (ActionError NOT_FOUND ''Script not found.'') \<and>
   createScript 1 ''s1'' heist (signed_in ''u1'') empty_db
     = (Inr (ScriptData (Some heist_row)),
        \<lparr> Scripts = [heist_row], ScriptVersions = [], ScriptElements = [] \<rparr>) \<and>
   (\<exists>s. getOwnedScript two_tenants ''s1'' ''u1'' = Inr s \<and>
        script_id s = ''s1'' \<and> script_userId s = ''u1'') \<and>
   ''s9'' \<notin> script_id ` set (Scripts two_tenants) \<and>
   getOwnedScript two_tenants ''s9'' ''u2'' = Inl (ActionError NOT_FOUND ''Script not found.'')"
proof -
  let ?d1 = "\<lparr> Scripts = [heist_row], ScriptVersions = [], ScriptElements = [] \<rparr>"
  have h1: "\<exists>s \<in> set (Scripts two_tenants). script_id s = ''s1'' \<and> script_userId s = ''u1''"
    by (simp add: example_defs)
  have h2: "\<forall>s \<in> set (Scripts two_tenants). \<not> (script_id s = ''s1'' \<and> script_userId s = ''u2'')"
    by (simp add: example_defs)
  have h3: "createScript 1 ''s1'' heist (signed_in ''u1'') empty_db
       = (Inr (ScriptData (Some heist_row)), ?d1) \<and>
     requireUser (signed_in ''u1'') = Inr \<lparr> user_id = ''u1'' \<rparr>"
    by (simp add: createScript_heist requireUser_signed_in)
  have h4: "''s9'' \<notin> script_id ` set (Scripts two_tenants)"
    by (simp add: example_defs)
  have h5: "''u2'' \<noteq> user_id \<lparr> user_id = ''u1'' \<rparr>" by simp
  note a = getOwnedScript_owner_only [where d = two_tenants and sid = "''s1''" and uid = "''u1''"]
  note b = getOwnedScript_owner_only [where d = two_tenants and sid = "''s1''" and uid = "''u2''"]
  note c = getOwnedScript_owner_only [where now = 1 and uuid = "''s1''" and i = heist
      and ctx = "signed_in ''u1''" and d = empty_db and r = "ScriptData (Some heist_row)"
      and d' = ?d1 and u = "\<lparr> user_id = ''u1'' \<rparr>" and cs = "tl setup_calls"]
  from a h1 have c1: "\<exists>s \<in> set (Scripts two_tenants). script_id s = ''s1'' \<and>
      script_userId s = ''u1'' \<and> getOwnedScript two_tenants ''s1'' ''u1'' = Inr s"
    by blast
  from b h2 have c2: "getOwnedScript two_tenants ''s1'' ''u2''
      = Inl (ActionError NOT_FOUND ''Script not found.'')"
    by blast
  from c h3 have c3: "(\<exists>s. getOwnedScript (run (tl setup_calls) ?d1) ''s1''
                           (user_id \<lparr> user_id = ''u1'' \<rparr>) = Inr s \<and>
           script_id s = ''s1'' \<and> script_userId s = user_id \<lparr> user_id = ''u1'' \<rparr>) \<and>
      (\<forall>missing v. missing \<notin> script_id ` set (Scripts (run (tl setup_calls) ?d1)) \<longrightarrow>
           getOwnedScript (run (tl setup_calls) ?d1) missing v
             = Inl (ActionError NOT_FOUND ''Script not found.''))"
    by blast
  from c3 have c4: "\<exists>s. getOwnedScript two_tenants ''s1'' ''u1'' = Inr s \<and>
        script_id s = ''s1'' \<and> script_userId s = ''u1''"
    by (simp add: run_tail_setup)
  from c3 h4 have c5: "getOwnedScript two_tenants ''s9'' ''u2''
      = Inl (ActionError NOT_FOUND ''Script not found.'')"
    by (simp add: run_tail_setup)
  from h2 have h2': "\<not> (\<exists>s \<in> set (Scripts two_tenants). script_id s = ''s1'' \<and> script_userId s = ''u2'')"
    by blast
  from c1 h2' c2 h3 c4 h4 c5 show ?thesis by blast
qed

text \<open>
  Claim C3. The \<open>userId\<close> a Script gets at creation is the caller's, and no sequence of
  later calls changes the \<open>userId\<close> stored under an existing Script id; in particular
  \<open>updateScript\<close> leaves the id and the \<open>userId\<close> of every row as they were.
\<close>

theorem owner_immutable:
  "(createScript now uuid i ctx d = (Inr r, d') \<and> requireUser ctx = Inr u \<longrightarrow>
      owners (run cs d') uuid = [user_id u]) \<and>
   (owners d sid \<noteq> [] \<longrightarrow> owners (run cs d) sid = owners d sid) \<and>
   (updateScript now' i' ctx' d = (res, d'') \<longrightarrow>
      map script_id (Scripts d'') = map script_id (Scripts d) \<and>
      map script_userId (Scripts d'') = map script_userId (Scripts d))"
proof (intro conjI impI)
  assume a: "createScript now uuid i ctx d = (Inr r, d') \<and> requireUser ctx = Inr u"
  from createScript_success [of now uuid i ctx d r d'] a
  obtain s where s: "script_id s = uuid" "script_userId s = user_id u"
    "Scripts d' = Scripts d @ [s]" "uuid \<notin> script_id ` set (Scripts d)"
    by auto
  have "filter (\<lambda>x. script_id x = uuid) (Scripts d) = []"
    using s(4) by (auto simp: filter_empty_conv)
  then have "owners d' uuid = [user_id u]"
    using s by (simp add: owners_def)
  then show "owners (run cs d') uuid = [user_id u]"
    using owners_run [of d' uuid cs] by simp
next
  assume "owners d sid \<noteq> []"
  then show "owners (run cs d) sid = owners d sid" by (rule owners_run)
next
  assume a: "updateScript now' i' ctx' d = (res, d'')"
  then have d'': "d'' = snd (updateScript now' i' ctx' d)" by simp
  show "map script_id (Scripts d'') = map script_id (Scripts d)"
    using Scripts_updateScript [of now' i' ctx' d]
    by (auto simp: d'' updateScript_set_keeps)
  show "map script_userId (Scripts d'') = map script_userId (Scripts d)"
    using Scripts_updateScript [of now' i' ctx' d]
    by (auto simp: d'' updateScript_set_keeps)
qed

theorem owner_immutable_witness:
  "createScript 1 ''s1'' heist (signed_in ''u1'') empty_db
     = (Inr (ScriptData (Some heist_row)),
        \<lparr> Scripts = [heist_row], ScriptVersions = [], ScriptElements = [] \<rparr>) \<and>
   owners two_tenants ''s1'' = [''u1''] \<and>
   owners (run later_calls two_tenants) ''s1'' = [''u1''] \<and>
   updateScript 7 status_patch (signed_in ''u1'') two_tenants =
     (Inr (ScriptData (Some heist_final)), two_tenants\<lparr>Scripts := [heist_final, road_row]\<rparr>) \<and>
   map script_userId (Scripts (two_tenants\<lparr>Scripts := [heist_final, road_row]\<rparr>))
     = map script_userId (Scripts two_tenants)"
proof -
  let ?d1 = "\<lparr> Scripts = [heist_row], ScriptVersions = [], ScriptElements = [] \<rparr>"
  have h1: "createScript 1 ''s1'' heist (signed_in ''u1'') empty_db
       = (Inr (ScriptData (Some heist_row)), ?d1) \<and>
     requireUser (signed_in ''u1'') = Inr \<lparr> user_id = ''u1'' \<rparr>"
    by (simp add: createScript_heist requireUser_signed_in)
  note a = owner_immutable [where now = 1 and uuid = "''s1''" and i = heist
      and ctx = "signed_in ''u1''" and d = empty_db and r = "ScriptData (Some heist_row)"
      and d' = ?d1 and u = "\<lparr> user_id = ''u1'' \<rparr>" and cs = "tl setup_calls"]
  from a h1 have "owners (run (tl setup_calls) ?d1) ''s1'' = [user_id \<lparr> user_id = ''u1'' \<rparr>]"
    by blast
  then have c1: "owners two_tenants ''s1'' = [''u1'']"
    by (simp add: run_tail_setup)
  then have h2: "owners two_tenants ''s1'' \<noteq> []" by simp
  note b = owner_immutable [where d = two_tenants and sid = "''s1''" and cs = later_calls]
  from b h2 have "owners (run later_calls two_tenants) ''s1'' = owners two_tenants ''s1''"
    by blast
  with c1 have c2: "owners (run later_calls two_tenants) ''s1'' = [''u1'']" by simp
  note c = owner_immutable [where d = two_tenants and now' = 7 and i' = status_patch
      and ctx' = "signed_in ''u1''" and res = "Inr (ScriptData (Some heist_final))"
      and d'' = "two_tenants\<lparr>Scripts := [heist_final, road_row]\<rparr>"]
  from c updateScript_status_patch
  have c3: "map script_userId (Scripts (two_tenants\<lparr>Scripts := [heist_final, road_row]\<rparr>))
     = map script_userId (Scripts two_tenants)"
    by blast
  from h1 c1 c2 updateScript_status_patch c3 show ?thesis by blast
qed

subsection \<open>Input schema and caller identity\<close>

lemma not_authenticated:
  "\<not> authenticated ctx \<Longrightarrow>
     requireUser ctx = Inl (ActionError UNAUTHORIZED ''You must be signed in to perform this action.'')"
  by (auto simp: authenticated_def requireUser_def split: option.splits sum.splits)

text \<open>
  Claim C9, as amended. A payload that fails the input schema is rejected with VALIDATION
  whoever calls, the store untouched. A payload that satisfies the schema, sent without an
  authenticated caller, is rejected with UNAUTHORIZED, the store untouched.
\<close>

theorem schema_then_identity:
  "(\<not> schema_ok r \<longrightarrow> server now uuid r ctx d = (Inl VALIDATION, d)) \<and>
   (schema_ok r \<and> \<not> authenticated ctx \<longrightarrow>
      server now uuid r ctx d =
        (Inl (ActionError UNAUTHORIZED ''You must be signed in to perform this action.''), d))"
proof (intro conjI impI)
  assume "\<not> schema_ok r"
  then show "server now uuid r ctx d = (Inl VALIDATION, d)"
    by (cases r) (simp_all add: action_defs defineAction_def)
next
  assume "schema_ok r \<and> \<not> authenticated ctx"
  then show "server now uuid r ctx d =
      (Inl (ActionError UNAUTHORIZED ''You must be signed in to perform this action.''), d)"
    by (cases r) (simp_all add: action_defs defineAction_def handler_defs not_authenticated)
qed

theorem schema_then_identity_witness:
  "\<not> schema_ok (UpdateScript empty_patch) \<and>
   server 6 ''x1'' (UpdateScript empty_patch) anonymous two_tenants
     = (Inl VALIDATION, two_tenants) \<and>
   schema_ok (UpdateScript status_patch) \<and> \<not> authenticated anonymous \<and>
   server 6 ''x1'' (UpdateScript status_patch) anonymous two_tenants
     = (Inl (ActionError UNAUTHORIZED ''You must be signed in to perform this action.''),
        two_tenants)"
proof -
  have h1: "\<not> schema_ok (UpdateScript empty_patch)"
    by (simp add: schema_defs empty_patch_def)
  have h2: "schema_ok (UpdateScript status_patch) \<and> \<not> authenticated anonymous"
    by (simp add: schema_defs status_patch_def not_authenticated_anonymous)
  note a = schema_then_identity [where r = "UpdateScript empty_patch" and now = 6
      and uuid = "''x1''" and ctx = anonymous and d = two_tenants]
  note b = schema_then_identity [where r = "UpdateScript status_patch" and now = 6
      and uuid = "''x1''" and ctx = anonymous and d = two_tenants]
  from a h1 have c1: "server 6 ''x1'' (UpdateScript empty_patch) anonymous two_tenants
     = (Inl VALIDATION, two_tenants)"
    by blast
  from b h2 have c2: "server 6 ''x1'' (UpdateScript status_patch) anonymous two_tenants
     = (Inl (ActionError UNAUTHORIZED ''You must be signed in to perform this action.''),
        two_tenants)"
    by blast
  from h1 h2 c1 c2 show ?thesis by blast
qed

text \<open>
  Claim C9 as stated fails: without an authenticated caller, an empty title and a patch
  with no field are rejected with VALIDATION, not with UNAUTHORIZED.
\<close>

theorem unauthorized_first_counterexample:
  "\<not> authenticated anonymous \<and>
   createScript 0 ''s1''
      \<lparr> cs_title = [], cs_scriptType = None, cs_formatStandard = None, cs_logline = None,
        cs_status = None, cs_notes = None \<rparr> anonymous empty_db
     = (Inl VALIDATION, empty_db) \<and>
   updateScript 0
      \<lparr> us_id = ''s1'', us_title = None, us_scriptType = None, us_formatStandard = None,
        us_logline = None, us_status = None, us_notes = None \<rparr> anonymous empty_db
     = (Inl VALIDATION, empty_db) \<and>
   Inl VALIDATION \<noteq>
     (Inl (ActionError UNAUTHORIZED ''You must be signed in to perform this action.'')
        :: failure + response)"
  by (simp add: authenticated_def eval_defs)

subsection \<open>Deleting\<close>

lemma getOwnedVersion_Inr:
  "getOwnedVersion d vid sid uid = Inr v \<Longrightarrow>
     v \<in> set (ScriptVersions d) \<and> version_id v = vid \<and> version_scriptId v = sid \<and>
     (\<exists>s. getOwnedScript d sid uid = Inr s)"
  by (auto simp: getOwnedVersion_def db_select_def split: sum.splits option.splits
      dest: first_filter_Some)

lemma getOwnedVersion_no_row:
  "\<forall>v \<in> set (ScriptVersions d). \<not> (version_id v = vid \<and> version_scriptId v = sid) \<Longrightarrow>
   getOwnedScript d sid uid = Inr s \<Longrightarrow>
   getOwnedVersion d vid sid uid = Inl (ActionError NOT_FOUND ''Script version not found.'')"
  by (auto simp: getOwnedVersion_def db_select_def first_filter_None split: option.splits)






text \<open>
  A ScriptVersion that a ScriptElement still references is not deleted: the storage
  engine's error reaches the caller and the store is as it was.
\<close>

lemma deleteScriptVersion_referenced:
  assumes "deleteScriptVersion_schema iv" and "requireUser ctx = Inr u"
    and "getOwnedVersion d (dv_id iv) (dv_scriptId iv) (user_id u) = Inr v"
    and "dv_id iv \<in> element_scriptVersionId ` set (ScriptElements d)"
  shows "deleteScriptVersion iv ctx d = (Inl CONSTRAINT, d)"
proof -
  from getOwnedVersion_Inr [OF assms(3)] have "v \<in> set (ScriptVersions d)" "version_id v = dv_id iv"
    by auto
  with assms(4) have "\<exists>r \<in> set (ScriptVersions d). version_id r = dv_id iv \<and>
      version_id r \<in> set (map element_scriptVersionId (ScriptElements d))"
    by auto
  then have "db_delete_referenced (\<lambda>v. version_id v = dv_id iv) version_id
      (map element_scriptVersionId (ScriptElements d)) (ScriptVersions d) = None"
    unfolding db_delete_referenced_def by (simp only: if_True)
  with assms(1-3) show ?thesis
    by (simp add: deleteScriptVersion_def defineAction_def deleteScriptVersion_handler_def)
qed

lemma deleteScriptVersion_bank_referenced:
  "deleteScriptVersion \<lparr> dv_id = ''v1'', dv_scriptId = ''s1'' \<rparr> (signed_in ''u1'') two_tenants
     = (Inl CONSTRAINT, two_tenants)"
  by (simp add: eval_defs example_defs)




subsection \<open>Updating\<close>

lemma list_all2_map_self: "(\<And>x. x \<in> set xs \<Longrightarrow> P x (f x)) \<Longrightarrow> list_all2 P xs (map f xs)"
  by (simp add: list_all2_map2 list_all2_same)

lemma first_map: "first (map f xs) = map_option f (first xs)"
  by (cases xs) auto

lemma updateScript_failure: "updateScript now i ctx d = (Inl e, d') \<Longrightarrow> d' = d"
  by (auto simp: updateScript_def defineAction_def updateScript_handler_def db_update_def
      split: sum.splits if_splits)

lemma updateScript_success:
  assumes "updateScript now i ctx d = (Inr r, d')"
  shows "\<exists>u s0. updateScript_schema i \<and> requireUser ctx = Inr u \<and>
           getOwnedScript d (us_id i) (user_id u) = Inr s0 \<and>
           d' = d\<lparr>Scripts := map (\<lambda>s. if script_id s = us_id i then updateScript_set now i s else s)
                               (Scripts d)\<rparr> \<and>
           r = ScriptData (first (map (updateScript_set now i)
                                   (filter (\<lambda>s. script_id s = us_id i) (Scripts d))))"
  using assms
  by (auto simp: updateScript_def defineAction_def updateScript_handler_def db_update_def
      split: sum.splits if_splits)

lemma updateScript_returns:
  assumes "updateScript now i ctx d = (Inr r, d')"
  shows "\<exists>s. r = ScriptData (Some s) \<and> script_id s = us_id i \<and> script_updatedAt s = now"
proof -
  from updateScript_success [OF assms] obtain u :: user and s0 where
    own: "getOwnedScript d (us_id i) (user_id u) = Inr s0" and
    r: "r = ScriptData (first (map (updateScript_set now i)
                                   (filter (\<lambda>s. script_id s = us_id i) (Scripts d))))"
    by auto
  from getOwnedScript_Inr [OF own] have "\<not> (\<forall>s \<in> set (Scripts d). \<not> script_id s = us_id i)"
    by blast
  then obtain s1 where s1: "first (filter (\<lambda>s. script_id s = us_id i) (Scripts d)) = Some s1"
    using first_filter_None [of "\<lambda>s. script_id s = us_id i" "Scripts d"] by fastforce
  from first_filter_Some [OF s1] have "script_id s1 = us_id i" by simp
  then show ?thesis using r s1 by (simp add: first_map updateScript_set_keeps)
qed

lemma updateScript_refreshes:
  assumes "updateScript now i ctx d = (Inr r, d')"
  shows "list_all2 (\<lambda>s s'. if script_id s = us_id i then script_updatedAt s' = now else s' = s)
           (Scripts d) (Scripts d')"
proof -
  from updateScript_success [OF assms] have
    "Scripts d' = map (\<lambda>s. if script_id s = us_id i then updateScript_set now i s else s) (Scripts d)"
    by auto
  then show ?thesis
    by (auto intro!: list_all2_map_self simp: updateScript_set_keeps)
qed

lemma updateScript_not_earlier:
  assumes "updateScript now i ctx d = (Inr r, d')"
    and "\<forall>s \<in> set (Scripts d). script_id s = us_id i \<longrightarrow> script_updatedAt s \<le> now"
  shows "list_all2 (\<lambda>s s'. script_updatedAt s \<le> script_updatedAt s') (Scripts d) (Scripts d')"
proof -
  from updateScript_success [OF assms(1)] have
    "Scripts d' = map (\<lambda>s. if script_id s = us_id i then updateScript_set now i s else s) (Scripts d)"
    by auto
  then show ?thesis using assms(2)
    by (auto intro!: list_all2_map_self simp: updateScript_set_keeps)
qed

lemma Scripts_createScript_stamp:
  "Scripts (snd (createScript now uuid i ctx d)) = Scripts d \<or>
   (\<exists>s. Scripts (snd (createScript now uuid i ctx d)) = Scripts d @ [s] \<and>
        script_updatedAt s = now)"
  by (auto simp: createScript_def defineAction_def createScript_handler_def db_insert_def
      split: sum.splits if_splits)

lemma updatedAt_bounded_server:
  assumes "\<forall>s \<in> set (Scripts d). script_updatedAt s \<le> T" and "now \<le> T"
  shows "\<forall>s \<in> set (Scripts (snd (server now uuid r ctx d))). script_updatedAt s \<le> T"
proof (cases r)
  case (CreateScript i)
  then show ?thesis
    using assms Scripts_createScript_stamp [of now uuid i ctx d] by auto
next
  case (UpdateScript i)
  then show ?thesis
    using assms Scripts_updateScript [of now i ctx d] by (auto simp: updateScript_set_keeps)
qed (use assms in \<open>simp_all add: Scripts_other\<close>)

lemma updatedAt_bounded_run:
  "\<forall>s \<in> set (Scripts d). script_updatedAt s \<le> T \<Longrightarrow> \<forall>c \<in> set cs. clock_of c \<le> T \<Longrightarrow>
   \<forall>s \<in> set (Scripts (run cs d)). script_updatedAt s \<le> T"
proof (induction cs arbitrary: d)
  case Nil
  then show ?case by simp
next
  case (Cons c cs)
  obtain now uuid r ctx where c: "c = (now, uuid, r, ctx)" by (cases c) auto
  have "\<forall>s \<in> set (Scripts (snd (server now uuid r ctx d))). script_updatedAt s \<le> T"
    using Cons.prems c by (intro updatedAt_bounded_server) auto
  from Cons.IH [OF this] Cons.prems(2) show ?case by (simp add: c)
qed

lemma monotone_clock_last:
  "monotone_clock (cs @ [c]) \<Longrightarrow> \<forall>c' \<in> set cs. clock_of c' \<le> clock_of c"
  by (auto simp: monotone_clock_def sorted_append)

lemma updateScript_monotone:
  assumes "monotone_clock (cs @ [(now, uuid, UpdateScript i, ctx)])"
    and "updateScript now i ctx (run cs empty_db) = (Inr r, d')"
  shows "list_all2 (\<lambda>s s'. script_updatedAt s \<le> script_updatedAt s')
           (Scripts (run cs empty_db)) (Scripts d')"
proof -
  have "\<forall>c' \<in> set cs. clock_of c' \<le> now"
    using monotone_clock_last [OF assms(1)] by simp
  then have "\<forall>s \<in> set (Scripts (run cs empty_db)). script_updatedAt s \<le> now"
    by (intro updatedAt_bounded_run) (simp_all add: empty_db_def)
  then show ?thesis using assms(2) by (intro updateScript_not_earlier) auto
qed

text \<open>
  Claim C6, as amended. A successful \<open>updateScript\<close> sets \<open>updatedAt\<close> of the Script to the
  clock reading of the call and returns that record. In every sequence of calls from the
  empty store whose clock readings never go back, the new value of every row is not
  earlier than the previous one. A failed \<open>updateScript\<close> leaves the whole store, hence
  \<open>updatedAt\<close>, unchanged.
\<close>

theorem updateScript_updatedAt:
  "(updateScript now i ctx d = (Inr r, d1) \<longrightarrow>
      list_all2 (\<lambda>s s'. if script_id s = us_id i then script_updatedAt s' = now else s' = s)
        (Scripts d) (Scripts d1) \<and>
      (\<exists>s. r = ScriptData (Some s) \<and> script_id s = us_id i \<and> script_updatedAt s = now)) \<and>
   (monotone_clock (cs @ [(now, uuid, UpdateScript i, ctx)]) \<and>
    updateScript now i ctx (run cs empty_db) = (Inr r2, d2) \<longrightarrow>
      list_all2 (\<lambda>s s'. script_updatedAt s \<le> script_updatedAt s')
        (Scripts (run cs empty_db)) (Scripts d2)) \<and>
   (updateScript now i ctx d = (Inl e, d3) \<longrightarrow> d3 = d)"
  using updateScript_refreshes [of now i ctx d r d1] updateScript_returns [of now i ctx d r d1]
    updateScript_monotone [of cs now uuid i ctx r2 d2]
    updateScript_failure [of now i ctx d e d3]
  by blast

theorem updateScript_updatedAt_witness:
  "monotone_clock (setup_calls @ [(7, ''x2'', UpdateScript status_patch, signed_in ''u1'')]) \<and>
   updateScript 7 status_patch (signed_in ''u1'') (run setup_calls empty_db) =
     (Inr (ScriptData (Some heist_final)), two_tenants\<lparr>Scripts := [heist_final, road_row]\<rparr>) \<and>
   script_updatedAt heist_row = 1 \<and> script_updatedAt heist_final = 7 \<and>
   list_all2 (\<lambda>s s'. script_updatedAt s \<le> script_updatedAt s')
     (Scripts (run setup_calls empty_db)) [heist_final, road_row] \<and>
   list_all2 (\<lambda>s s'. if script_id s = ''s1'' then script_updatedAt s' = 7 else s' = s)
     (Scripts two_tenants) [heist_final, road_row] \<and>
   updateScript 7 status_patch (signed_in ''u2'') two_tenants
     = (Inl (ActionError NOT_FOUND ''Script not found.''), two_tenants)"
proof -
  let ?d2 = "two_tenants\<lparr>Scripts := [heist_final, road_row]\<rparr>"
  have h1: "monotone_clock (setup_calls @ [(7, ''x2'', UpdateScript status_patch, signed_in ''u1'')])"
    by (simp add: monotone_clock_def setup_calls_def)
  have h2: "updateScript 7 status_patch (signed_in ''u1'') (run setup_calls empty_db) =
     (Inr (ScriptData (Some heist_final)), ?d2)"
    by (simp add: run_setup_calls updateScript_status_patch)
  have h3: "updateScript 7 status_patch (signed_in ''u2'') two_tenants
     = (Inl (ActionError NOT_FOUND ''Script not found.''), two_tenants)"
    by (simp add: eval_defs example_defs)
  note a = updateScript_updatedAt [where now = 7 and i = status_patch
      and ctx = "signed_in ''u1''" and d = two_tenants
      and r = "ScriptData (Some heist_final)" and ?d1.0 = ?d2
      and cs = setup_calls and uuid = "''x2''"
      and ?r2.0 = "ScriptData (Some heist_final)" and ?d2.0 = ?d2]
  from a h1 h2 have c1: "list_all2 (\<lambda>s s'. script_updatedAt s \<le> script_updatedAt s')
        (Scripts (run setup_calls empty_db)) (Scripts ?d2)"
    by blast
  from a updateScript_status_patch
  have c2: "list_all2 (\<lambda>s s'. if script_id s = us_id status_patch
                then script_updatedAt s' = 7 else s' = s)
        (Scripts two_tenants) (Scripts ?d2)"
    by blast
  have s1: "script_updatedAt heist_row = 1 \<and> script_updatedAt heist_final = 7"
    by (simp add: example_defs)
  from c1 have c1': "list_all2 (\<lambda>s s'. script_updatedAt s \<le> script_updatedAt s')
     (Scripts (run setup_calls empty_db)) [heist_final, road_row]"
    by simp
  from c2 have c2': "list_all2 (\<lambda>s s'. if script_id s = ''s1'' then script_updatedAt s' = 7 else s' = s)
     (Scripts two_tenants) [heist_final, road_row]"
    by (simp add: status_patch_def)
  from h1 h2 s1 c1' c2' h3 show ?thesis by blast
qed

text \<open>
  Claim C6 as stated fails: the handler writes the clock reading without comparing it with
  the stored value. On the worked store, whose first Script has \<open>updatedAt\<close> 1, the owner's
  patch at clock reading 0 succeeds and leaves \<open>updatedAt\<close> 0, less than its previous
  value.
\<close>

theorem updatedAt_moves_back_counterexample:
  "run setup_calls empty_db = two_tenants \<and>
   Scripts two_tenants = [heist_row, road_row] \<and>
   updateScript 0 status_patch (signed_in ''u1'') two_tenants =
     (Inr (ScriptData (Some (heist_row\<lparr>script_status := Some ''final'', script_updatedAt := 0\<rparr>))),
      two_tenants\<lparr>Scripts := [heist_row\<lparr>script_status := Some ''final'', script_updatedAt := 0\<rparr>,
                               road_row]\<rparr>) \<and>
   script_updatedAt heist_row = 1 \<and>
   script_updatedAt (heist_row\<lparr>script_status := Some ''final'', script_updatedAt := 0\<rparr>)
     < script_updatedAt heist_row"
proof (intro conjI)
  show "run setup_calls empty_db = two_tenants" by (rule run_setup_calls)
  show "Scripts two_tenants = [heist_row, road_row]" by (simp add: two_tenants_def)
  show "updateScript 0 status_patch (signed_in ''u1'') two_tenants =
     (Inr (ScriptData (Some (heist_row\<lparr>script_status := Some ''final'', script_updatedAt := 0\<rparr>))),
      two_tenants\<lparr>Scripts := [heist_row\<lparr>script_status := Some ''final'', script_updatedAt := 0\<rparr>,
                               road_row]\<rparr>)"
    by (simp add: eval_defs example_defs)
  show "script_updatedAt heist_row = 1" by (simp add: heist_row_def)
  show "script_updatedAt (heist_row\<lparr>script_status := Some ''final'', script_updatedAt := 0\<rparr>)
     < script_updatedAt heist_row"
    by (simp add: heist_row_def)
qed


lemma updateScriptVersion_success:
  assumes "updateScriptVersion i ctx d = (Inr r, d')"
  shows "d' = d\<lparr>ScriptVersions :=
                  map (\<lambda>v. if version_id v = uv_id i then updateScriptVersion_set i v else v)
                    (ScriptVersions d)\<rparr>"
  using assms
  by (auto simp: updateScriptVersion_def defineAction_def updateScriptVersion_handler_def
      db_update_def split: sum.splits if_splits)

lemma updateScriptElement_success:
  assumes "updateScriptElement i ctx d = (Inr r, d')"
  shows "d' = d\<lparr>ScriptElements :=
                  map (\<lambda>e. if element_id e = ue_id i then updateScriptElement_set i e else e)
                    (ScriptElements d)\<rparr>"
  using assms
  by (auto simp: updateScriptElement_def defineAction_def updateScriptElement_handler_def
      db_update_def split: sum.splits option.splits if_splits)

lemma updateScript_frame:
  assumes "updateScript now i ctx d = (Inr r, d')"
  shows "ScriptVersions d' = ScriptVersions d \<and> ScriptElements d' = ScriptElements d \<and>
     list_all2 (\<lambda>s s'.
        (script_id s \<noteq> us_id i \<longrightarrow> s' = s) \<and>
        script_id s' = script_id s \<and> script_userId s' = script_userId s \<and>
        script_createdAt s' = script_createdAt s \<and>
        (us_title i = None \<longrightarrow> script_title s' = script_title s) \<and>
        (us_scriptType i = None \<longrightarrow> script_scriptType s' = script_scriptType s) \<and>
        (us_formatStandard i = None \<longrightarrow> script_formatStandard s' = script_formatStandard s) \<and>
        (us_logline i = None \<longrightarrow> script_logline s' = script_logline s) \<and>
        (us_status i = None \<longrightarrow> script_status s' = script_status s) \<and>
        (us_notes i = None \<longrightarrow> script_notes s' = script_notes s))
       (Scripts d) (Scripts d')"
proof -
  from updateScript_success [OF assms] have
    d': "d' = d\<lparr>Scripts := map (\<lambda>s. if script_id s = us_id i then updateScript_set now i s else s)
                               (Scripts d)\<rparr>"
    by auto
  show ?thesis
    unfolding d'
    by (auto intro!: list_all2_map_self simp: updateScript_set_def Let_def split: option.splits)
qed

lemma updateScriptVersion_frame:
  assumes "updateScriptVersion i ctx d = (Inr r, d')"
  shows "Scripts d' = Scripts d \<and> ScriptElements d' = ScriptElements d \<and>
     list_all2 (\<lambda>v v'.
        (version_id v \<noteq> uv_id i \<longrightarrow> v' = v) \<and>
        version_id v' = version_id v \<and> version_scriptId v' = version_scriptId v \<and>
        version_createdAt v' = version_createdAt v \<and>
        (uv_versionLabel i = None \<longrightarrow> version_versionLabel v' = version_versionLabel v) \<and>
        (uv_isPreferred i = None \<longrightarrow> version_isPreferred v' = version_isPreferred v) \<and>
        (uv_rawContent i = None \<longrightarrow> version_rawContent v' = version_rawContent v) \<and>
        (uv_formattedContent i = None \<longrightarrow>
           version_formattedContent v' = version_formattedContent v))
       (ScriptVersions d) (ScriptVersions d')"
  unfolding updateScriptVersion_success [OF assms]
  by (auto intro!: list_all2_map_self simp: updateScriptVersion_set_def Let_def
      split: option.splits if_splits)

lemma updateScriptElement_frame:
  assumes "updateScriptElement i ctx d = (Inr r, d')"
  shows "Scripts d' = Scripts d \<and> ScriptVersions d' = ScriptVersions d \<and>
     list_all2 (\<lambda>e e'.
        (element_id e \<noteq> ue_id i \<longrightarrow> e' = e) \<and>
        element_id e' = element_id e \<and>
        element_scriptVersionId e' = element_scriptVersionId e \<and>
        element_createdAt e' = element_createdAt e \<and>
        (ue_orderIndex i = None \<longrightarrow> element_orderIndex e' = element_orderIndex e) \<and>
        (ue_elementType i = None \<longrightarrow> element_elementType e' = element_elementType e) \<and>
        (ue_characterName i = None \<longrightarrow> element_characterName e' = element_characterName e) \<and>
        (ue_content i = None \<longrightarrow> element_content e' = element_content e))
       (ScriptElements d) (ScriptElements d')"
  unfolding updateScriptElement_success [OF assms]
  by (auto intro!: list_all2_map_self simp: updateScriptElement_set_def Let_def
      split: option.splits if_splits)


subsection \<open>Patches without a field\<close>

text \<open>
  Claim C5. A patch that supplies none of the updatable fields is rejected with VALIDATION
  by \<open>updateScript\<close>, \<open>updateScriptVersion\<close> and \<open>updateScriptElement\<close>, whoever calls
  and whatever the store holds; the store is returned as it was, and the handler, which
  holds every storage operation, is not run (any handler in its place gives the same).
\<close>

theorem empty_patch_rejected:
  "(us_title i1 = None \<and> us_scriptType i1 = None \<and> us_formatStandard i1 = None \<and>
    us_logline i1 = None \<and> us_status i1 = None \<and> us_notes i1 = None
      \<longrightarrow> updateScript now i1 ctx d = (Inl VALIDATION, d)
        \<and> (\<forall>h. defineAction updateScript_schema h i1 ctx d = (Inl VALIDATION, d))) \<and>
   (uv_versionLabel i2 = None \<and> uv_isPreferred i2 = None \<and> uv_rawContent i2 = None \<and>
    uv_formattedContent i2 = None
      \<longrightarrow> updateScriptVersion i2 ctx d = (Inl VALIDATION, d)
        \<and> (\<forall>h. defineAction updateScriptVersion_schema h i2 ctx d = (Inl VALIDATION, d))) \<and>
   (ue_orderIndex i3 = None \<and> ue_elementType i3 = None \<and> ue_characterName i3 = None \<and>
    ue_content i3 = None
      \<longrightarrow> updateScriptElement i3 ctx d = (Inl VALIDATION, d)
        \<and> (\<forall>h. defineAction updateScriptElement_schema h i3 ctx d = (Inl VALIDATION, d)))"
  by (simp add: action_defs defineAction_def updateScript_schema_def
      updateScriptVersion_schema_def updateScriptElement_schema_def)

theorem empty_patch_rejected_witness:
  "updateScript 6
     \<lparr> us_id = ''s1'', us_title = None, us_scriptType = None, us_formatStandard = None,
       us_logline = None, us_status = None, us_notes = None \<rparr> (signed_in ''u1'') two_tenants
     = (Inl VALIDATION, two_tenants) \<and>
   updateScriptVersion
     \<lparr> uv_id = ''v1'', uv_scriptId = ''s1'', uv_versionLabel = None, uv_isPreferred = None,
       uv_rawContent = None, uv_formattedContent = None \<rparr> (signed_in ''u1'') two_tenants
     = (Inl VALIDATION, two_tenants) \<and>
   updateScriptElement
     \<lparr> ue_id = ''e1'', ue_scriptId = ''s1'', ue_scriptVersionId = ''v1'', ue_orderIndex = None,
       ue_elementType = None, ue_characterName = None, ue_content = None \<rparr>
     (signed_in ''u1'') two_tenants
     = (Inl VALIDATION, two_tenants)"
proof -
  let ?i1 = "\<lparr> us_id = ''s1'', us_title = None, us_scriptType = None,
        us_formatStandard = None, us_logline = None, us_status = None, us_notes = None \<rparr>"
  let ?i2 = "\<lparr> uv_id = ''v1'', uv_scriptId = ''s1'', uv_versionLabel = None,
        uv_isPreferred = None, uv_rawContent = None, uv_formattedContent = None \<rparr>"
  let ?i3 = "\<lparr> ue_id = ''e1'', ue_scriptId = ''s1'', ue_scriptVersionId = ''v1'',
        ue_orderIndex = None, ue_elementType = None, ue_characterName = None,
        ue_content = None \<rparr>"
  have h1: "us_title ?i1 = None \<and> us_scriptType ?i1 = None \<and> us_formatStandard ?i1 = None \<and>
    us_logline ?i1 = None \<and> us_status ?i1 = None \<and> us_notes ?i1 = None"
    by simp
  have h2: "uv_versionLabel ?i2 = None \<and> uv_isPreferred ?i2 = None \<and> uv_rawContent ?i2 = None \<and>
    uv_formattedContent ?i2 = None"
    by simp
  have h3: "ue_orderIndex ?i3 = None \<and> ue_elementType ?i3 = None \<and>
    ue_characterName ?i3 = None \<and> ue_content ?i3 = None"
    by simp
  note t = empty_patch_rejected [of ?i1 6 "signed_in ''u1''" two_tenants ?i2 ?i3]
  from t h1 have c1: "updateScript 6 ?i1 (signed_in ''u1'') two_tenants = (Inl VALIDATION, two_tenants)"
    by blast
  from t h2 have c2: "updateScriptVersion ?i2 (signed_in ''u1'') two_tenants = (Inl VALIDATION, two_tenants)"
    by blast
  from t h3 have c3: "updateScriptElement ?i3 (signed_in ''u1'') two_tenants = (Inl VALIDATION, two_tenants)"
    by blast
  from c1 c2 c3 show ?thesis by blast
qed

subsection \<open>Listing versions\<close>

lemma listScriptVersions_result:
  "listScriptVersions i ctx d =
     (if \<not> listScriptVersions_schema i then (Inl VALIDATION, d)
      else case requireUser ctx of
        Inl e \<Rightarrow> (Inl e, d)
      | Inr u \<Rightarrow>
         (case getOwnedScript d (lv_scriptId i) (user_id u) of
            Inl e \<Rightarrow> (Inl e, d)
          | Inr _ \<Rightarrow>
             (let versions =
                    (if preferredOnly i
                     then filter version_isPreferred
                            (filter (\<lambda>v. version_scriptId v = lv_scriptId i) (ScriptVersions d))
                     else filter (\<lambda>v. version_scriptId v = lv_scriptId i) (ScriptVersions d))
              in (Inr (VersionItems versions (length versions)), d))))"
  by (simp add: listScriptVersions_def defineAction_def listScriptVersions_handler_def
      db_select_def Let_def split: sum.splits)

lemma listScriptVersions_all:
  assumes "\<not> preferredOnly i_all"
    and "listScriptVersions i_all ctx d = (Inr (VersionItems items n), d')"
  shows "\<exists>u s. listScriptVersions_schema i_all \<and> requireUser ctx = Inr u \<and>
           getOwnedScript d (lv_scriptId i_all) (user_id u) = Inr s \<and>
           items = filter (\<lambda>v. version_scriptId v = lv_scriptId i_all) (ScriptVersions d) \<and>
           n = length items \<and> d' = d"
  using assms
  by (auto simp: listScriptVersions_result Let_def split: if_splits sum.splits)

lemma listScriptVersions_pref:
  assumes "lv_scriptId i_pref = lv_scriptId i_all"
    and "preferredOnly i_pref" and "\<not> preferredOnly i_all"
    and "listScriptVersions i_all ctx d = (Inr (VersionItems items n), d')"
  shows "listScriptVersions i_pref ctx d =
           (Inr (VersionItems (filter version_isPreferred items)
                   (length (filter version_isPreferred items))), d)"
proof -
  from listScriptVersions_all [OF assms(3,4)] obtain u :: user and s where
    "listScriptVersions_schema i_all" "requireUser ctx = Inr u"
    "getOwnedScript d (lv_scriptId i_all) (user_id u) = Inr s"
    "items = filter (\<lambda>v. version_scriptId v = lv_scriptId i_all) (ScriptVersions d)"
    by auto
  then show ?thesis
    using assms(1,2)
    by (simp add: listScriptVersions_result [of i_pref] listScriptVersions_schema_def Let_def)
qed

lemma listScriptVersions_fail:
  assumes "lv_scriptId i_pref = lv_scriptId i_all"
    and "listScriptVersions i_all ctx d = (Inl e, d')"
  shows "listScriptVersions i_pref ctx d = (Inl e, d')"
  using assms
  by (auto simp: listScriptVersions_result listScriptVersions_schema_def Let_def
      split: if_splits sum.splits)

text \<open>
  Claim C8. For two \<open>listScriptVersions\<close> requests on the same \<open>scriptId\<close>, one with
  \<open>preferredOnly\<close> true and one with it false or omitted, by the same caller on the same
  store: when the unfiltered call returns \<open>items\<close>, the preferred-only call returns
  exactly the items of it whose \<open>isPreferred\<close> is true, in the same order, with their
  count; so its items are a subset and each is preferred. When the unfiltered call fails,
  the preferred-only call fails in the same way.
\<close>

theorem preferredOnly_filters:
  assumes "lv_scriptId i_pref = lv_scriptId i_all"
    and "preferredOnly i_pref" and "\<not> preferredOnly i_all"
  shows "(listScriptVersions i_all ctx d = (Inr (VersionItems items n), d') \<longrightarrow>
           (\<exists>chosen. listScriptVersions i_pref ctx d
                       = (Inr (VersionItems chosen (length chosen)), d) \<and>
                     chosen = filter version_isPreferred items \<and>
                     set chosen \<subseteq> set items \<and>
                     (\<forall>v \<in> set chosen. version_isPreferred v)) \<and>
           n = length items \<and> d' = d) \<and>
         (listScriptVersions i_all ctx d = (Inl e, d') \<longrightarrow>
           listScriptVersions i_pref ctx d = (Inl e, d'))"
proof (intro conjI impI)
  assume a: "listScriptVersions i_all ctx d = (Inr (VersionItems items n), d')"
  from listScriptVersions_pref [OF assms a]
  show "\<exists>chosen. listScriptVersions i_pref ctx d
                       = (Inr (VersionItems chosen (length chosen)), d) \<and>
                     chosen = filter version_isPreferred items \<and>
                     set chosen \<subseteq> set items \<and>
                     (\<forall>v \<in> set chosen. version_isPreferred v)"
    by simp
  from listScriptVersions_all [OF assms(3) a] show "n = length items" by blast
  from listScriptVersions_all [OF assms(3) a] show "d' = d" by blast
next
  assume "listScriptVersions i_all ctx d = (Inl e, d')"
  with assms(1) show "listScriptVersions i_pref ctx d = (Inl e, d')"
    by (rule listScriptVersions_fail)
qed

theorem preferredOnly_filters_witness:
  "listScriptVersions \<lparr> lv_scriptId = ''s2'', lv_preferredOnly = None \<rparr>
     (signed_in ''u2'') three_versions
     = (Inr (VersionItems
          [road_version, road_version\<lparr>version_id := ''v3'', version_isPreferred := False\<rparr>] 2),
        three_versions) \<and>
   listScriptVersions \<lparr> lv_scriptId = ''s2'', lv_preferredOnly = Some True \<rparr>
     (signed_in ''u2'') three_versions
     = (Inr (VersionItems [road_version] 1), three_versions)"
proof -
  let ?all = "\<lparr> lv_scriptId = ''s2'', lv_preferredOnly = None \<rparr>"
  let ?pref = "\<lparr> lv_scriptId = ''s2'', lv_preferredOnly = Some True \<rparr>"
  let ?v3 = "road_version\<lparr>version_id := ''v3'', version_isPreferred := False\<rparr>"
  have h1: "lv_scriptId ?pref = lv_scriptId ?all" by simp
  have h2: "preferredOnly ?pref" by (simp add: preferredOnly_def)
  have h3: "\<not> preferredOnly ?all" by (simp add: preferredOnly_def)
  have h4: "listScriptVersions ?all (signed_in ''u2'') three_versions
     = (Inr (VersionItems [road_version, ?v3] 2), three_versions)"
    by (simp add: eval_defs example_defs three_versions_def)
  have f: "filter version_isPreferred [road_version, ?v3] = [road_version]"
    by (simp add: road_version_def)
  from preferredOnly_filters [OF h1 h2 h3, of "signed_in ''u2''" three_versions
      "[road_version, ?v3]" 2 three_versions] h4
  have "\<exists>chosen. listScriptVersions ?pref (signed_in ''u2'') three_versions
                       = (Inr (VersionItems chosen (length chosen)), three_versions) \<and>
                     chosen = filter version_isPreferred [road_version, ?v3]"
    by blast
  with f have "listScriptVersions ?pref (signed_in ''u2'') three_versions
     = (Inr (VersionItems [road_version] 1), three_versions)"
    by simp
  with h4 show ?thesis by blast
qed

text \<open>
  Claim C4. After a successful \<open>updateScript\<close>, \<open>updateScriptVersion\<close> or
  \<open>updateScriptElement\<close>, row by row in storage order: every row with another id is
  unchanged; the id, the parent reference (\<open>userId\<close>, \<open>scriptId\<close>, \<open>scriptVersionId\<close>) and
  \<open>createdAt\<close> of every row are unchanged; every field the patch omits keeps its stored
  value (only \<open>updatedAt\<close> of a Script changes besides the supplied fields); and the two
  other tables are unchanged.
\<close>

theorem partial_patch_frame:
  "(updateScript now i1 ctx d = (Inr r1, d1) \<longrightarrow>
     ScriptVersions d1 = ScriptVersions d \<and> ScriptElements d1 = ScriptElements d \<and>
     list_all2 (\<lambda>s s'.
        (script_id s \<noteq> us_id i1 \<longrightarrow> s' = s) \<and>
        script_id s' = script_id s \<and> script_userId s' = script_userId s \<and>
        script_createdAt s' = script_createdAt s \<and>
        (us_title i1 = None \<longrightarrow> script_title s' = script_title s) \<and>
        (us_scriptType i1 = None \<longrightarrow> script_scriptType s' = script_scriptType s) \<and>
        (us_formatStandard i1 = None \<longrightarrow> script_formatStandard s' = script_formatStandard s) \<and>
        (us_logline i1 = None \<longrightarrow> script_logline s' = script_logline s) \<and>
        (us_status i1 = None \<longrightarrow> script_status s' = script_status s) \<and>
        (us_notes i1 = None \<longrightarrow> script_notes s' = script_notes s))
       (Scripts d) (Scripts d1)) \<and>
   (updateScriptVersion i2 ctx d = (Inr r2, d2) \<longrightarrow>
     Scripts d2 = Scripts d \<and> ScriptElements d2 = ScriptElements d \<and>
     list_all2 (\<lambda>v v'.
        (version_id v \<noteq> uv_id i2 \<longrightarrow> v' = v) \<and>
        version_id v' = version_id v \<and> version_scriptId v' = version_scriptId v \<and>
        version_createdAt v' = version_createdAt v \<and>
        (uv_versionLabel i2 = None \<longrightarrow> version_versionLabel v' = version_versionLabel v) \<and>
        (uv_isPreferred i2 = None \<longrightarrow> version_isPreferred v' = version_isPreferred v) \<and>
        (uv_rawContent i2 = None \<longrightarrow> version_rawContent v' = version_rawContent v) \<and>
        (uv_formattedContent i2 = None \<longrightarrow>
           version_formattedContent v' = version_formattedContent v))
       (ScriptVersions d) (ScriptVersions d2)) \<and>
   (updateScriptElement i3 ctx d = (Inr r3, d3) \<longrightarrow>
     Scripts d3 = Scripts d \<and> ScriptVersions d3 = ScriptVersions d \<and>
     list_all2 (\<lambda>e e'.
        (element_id e \<noteq> ue_id i3 \<longrightarrow> e' = e) \<and>
        element_id e' = element_id e \<and>
        element_scriptVersionId e' = element_scriptVersionId e \<and>
        element_createdAt e' = element_createdAt e \<and>
        (ue_orderIndex i3 = None \<longrightarrow> element_orderIndex e' = element_orderIndex e) \<and>
        (ue_elementType i3 = None \<longrightarrow> element_elementType e' = element_elementType e) \<and>
        (ue_characterName i3 = None \<longrightarrow> element_characterName e' = element_characterName e) \<and>
        (ue_content i3 = None \<longrightarrow> element_content e' = element_content e))
       (ScriptElements d) (ScriptElements d3))"
  using updateScript_frame [of now i1 ctx d r1 d1]
    updateScriptVersion_frame [of i2 ctx d r2 d2]
    updateScriptElement_frame [of i3 ctx d r3 d3]
  by blast

theorem partial_patch_frame_witness:
  "updateScript 7 status_patch (signed_in ''u1'') two_tenants =
     (Inr (ScriptData (Some heist_final)), two_tenants\<lparr>Scripts := [heist_final, road_row]\<rparr>) \<and>
   us_title status_patch = None \<and> us_logline status_patch = None \<and>
   script_title heist_final = script_title heist_row \<and>
   script_logline heist_final = script_logline heist_row \<and>
   script_userId heist_final = script_userId heist_row \<and>
   updateScriptVersion prefer_patch (signed_in ''u1'') two_tenants =
     (Inr (VersionData (Some (bank_version\<lparr>version_isPreferred := True\<rparr>))),
      two_tenants\<lparr>ScriptVersions := [bank_version\<lparr>version_isPreferred := True\<rparr>, road_version]\<rparr>) \<and>
   uv_rawContent prefer_patch = None \<and>
   version_rawContent (bank_version\<lparr>version_isPreferred := True\<rparr>)
     = version_rawContent bank_version \<and>
   updateScriptElement content_patch (signed_in ''u1'') two_tenants =
     (Inr (ElementData (Some (bank_element\<lparr>element_content := ''INT. VAULT''\<rparr>))),
      two_tenants\<lparr>ScriptElements := [bank_element\<lparr>element_content := ''INT. VAULT''\<rparr>]\<rparr>) \<and>
   ue_elementType content_patch = None \<and>
   element_elementType (bank_element\<lparr>element_content := ''INT. VAULT''\<rparr>)
     = element_elementType bank_element"
proof -
  let ?d1 = "two_tenants\<lparr>Scripts := [heist_final, road_row]\<rparr>"
  let ?v = "bank_version\<lparr>version_isPreferred := True\<rparr>"
  let ?d2 = "two_tenants\<lparr>ScriptVersions := [?v, road_version]\<rparr>"
  let ?e = "bank_element\<lparr>element_content := ''INT. VAULT''\<rparr>"
  let ?d3 = "two_tenants\<lparr>ScriptElements := [?e]\<rparr>"
  note t = partial_patch_frame [where now = 7 and ctx = "signed_in ''u1''" and d = two_tenants
      and ?i1.0 = status_patch and ?r1.0 = "ScriptData (Some heist_final)" and ?d1.0 = ?d1
      and ?i2.0 = prefer_patch and ?r2.0 = "VersionData (Some ?v)" and ?d2.0 = ?d2
      and ?i3.0 = content_patch and ?r3.0 = "ElementData (Some ?e)" and ?d3.0 = ?d3]
  have o1: "us_title status_patch = None \<and> us_logline status_patch = None"
    by (simp add: status_patch_def)
  have o2: "uv_rawContent prefer_patch = None" by (simp add: prefer_patch_def)
  have o3: "ue_elementType content_patch = None" by (simp add: content_patch_def)
  note r1 = mp [OF t [THEN conjunct1] updateScript_status_patch]
  note r2 = mp [OF t [THEN conjunct2, THEN conjunct1] updateScriptVersion_prefer_patch]
  note r3 = mp [OF t [THEN conjunct2, THEN conjunct2] updateScriptElement_content_patch]
  from r1 [THEN conjunct2, THEN conjunct2] o1
  have c1: "script_title heist_final = script_title heist_row \<and>
      script_logline heist_final = script_logline heist_row \<and>
      script_userId heist_final = script_userId heist_row"
    by (simp add: two_tenants_def)
  from r2 [THEN conjunct2, THEN conjunct2] o2
  have c2: "version_rawContent ?v = version_rawContent bank_version"
    by (simp add: two_tenants_def)
  from r3 [THEN conjunct2, THEN conjunct2] o3
  have c3: "element_elementType ?e = element_elementType bank_element"
    by (simp add: two_tenants_def)
  show ?thesis
    by (intro conjI updateScript_status_patch updateScriptVersion_prefer_patch
        updateScriptElement_content_patch o1 [THEN conjunct1] o1 [THEN conjunct2] o2 o3
        c1 [THEN conjunct1] c1 [THEN conjunct2, THEN conjunct1]
        c1 [THEN conjunct2, THEN conjunct2] c2 c3)
qed

subsection \<open>Empty raw content\<close>

text \<open>
  Claim C10. \<open>createScriptVersion\<close> rejects an empty \<open>rawContent\<close> with VALIDATION, while
  the schema of \<open>updateScriptVersion\<close> asks nothing of a supplied \<open>rawContent\<close>; so the
  calls that build the worked store, followed by the owner's patch of \<open>rawContent\<close> to the
  empty string, leave a stored ScriptVersion whose \<open>rawContent\<close> is empty.
\<close>

theorem empty_rawContent_through_update:
  "createScriptVersion now uuid (i\<lparr>cv_rawContent := []\<rparr>) ctx d = (Inl VALIDATION, d) \<and>
   updateScriptVersion_schema (p\<lparr>uv_rawContent := Some []\<rparr>)
     = (min1 (uv_id p) \<and> min1 (uv_scriptId p)) \<and>
   uv_rawContent blank_patch = Some [] \<and>
   updateScriptVersion blank_patch (signed_in ''u1'') (run setup_calls empty_db) =
     (Inr (VersionData (Some (bank_version\<lparr>version_rawContent := []\<rparr>))),
      two_tenants\<lparr>ScriptVersions := [bank_version\<lparr>version_rawContent := []\<rparr>, road_version]\<rparr>) \<and>
   map version_rawContent (ScriptVersions (run setup_calls empty_db))
     = [''INT. BANK'', ''EXT. ROAD''] \<and>
   map version_rawContent
     (ScriptVersions
        (run (setup_calls @ [(6, ''x1'', UpdateScriptVersion blank_patch, signed_in ''u1'')])
           empty_db))
     = [[], ''EXT. ROAD'']"
proof (intro conjI)
  show "createScriptVersion now uuid (i\<lparr>cv_rawContent := []\<rparr>) ctx d = (Inl VALIDATION, d)"
    by (simp add: createScriptVersion_def defineAction_def createScriptVersion_schema_def min1_def)
  show "updateScriptVersion_schema (p\<lparr>uv_rawContent := Some []\<rparr>)
     = (min1 (uv_id p) \<and> min1 (uv_scriptId p))"
    by (simp add: updateScriptVersion_schema_def)
  show "uv_rawContent blank_patch = Some []" by (simp add: blank_patch_def)
  show "updateScriptVersion blank_patch (signed_in ''u1'') (run setup_calls empty_db) =
     (Inr (VersionData (Some (bank_version\<lparr>version_rawContent := []\<rparr>))),
      two_tenants\<lparr>ScriptVersions := [bank_version\<lparr>version_rawContent := []\<rparr>, road_version]\<rparr>)"
    by (simp add: run_setup_calls updateScriptVersion_blank_patch)
  show "map version_rawContent (ScriptVersions (run setup_calls empty_db))
     = [''INT. BANK'', ''EXT. ROAD'']"
    by (simp add: run_setup_calls two_tenants_def bank_version_def road_version_def)
  show "map version_rawContent
     (ScriptVersions
        (run (setup_calls @ [(6, ''x1'', UpdateScriptVersion blank_patch, signed_in ''u1'')])
           empty_db))
     = [[], ''EXT. ROAD'']"
    by (simp add: run_append run_setup_calls updateScriptVersion_blank_patch road_version_def)
qed

theorem empty_rawContent_through_update_witness:
  "createScriptVersion 6 ''v3''
     \<lparr> cv_scriptId = ''s1'', cv_versionLabel = None, cv_isPreferred = None,
       cv_rawContent = [], cv_formattedContent = None \<rparr> (signed_in ''u1'') two_tenants
     = (Inl VALIDATION, two_tenants) \<and>
   updateScriptVersion_schema blank_patch \<and>
   fst (updateScriptVersion blank_patch (signed_in ''u1'') (run setup_calls empty_db))
     = Inr (VersionData (Some (bank_version\<lparr>version_rawContent := []\<rparr>)))"
proof -
  note t = empty_rawContent_through_update [where now = 6 and uuid = "''v3''"
      and i = "\<lparr> cv_scriptId = ''s1'', cv_versionLabel = None, cv_isPreferred = None,
                cv_rawContent = ''INT. BANK'', cv_formattedContent = None \<rparr>"
      and ctx = "signed_in ''u1''" and d = two_tenants and p = blank_patch]
  from t [THEN conjunct1]
  have c1: "createScriptVersion 6 ''v3''
     \<lparr> cv_scriptId = ''s1'', cv_versionLabel = None, cv_isPreferred = None,
       cv_rawContent = [], cv_formattedContent = None \<rparr> (signed_in ''u1'') two_tenants
     = (Inl VALIDATION, two_tenants)"
    by simp
  from t [THEN conjunct2, THEN conjunct1]
  have c2: "updateScriptVersion_schema blank_patch"
    by (simp add: blank_patch_def min1_def)
  from t [THEN conjunct2, THEN conjunct2, THEN conjunct2, THEN conjunct1]
  have c3: "fst (updateScriptVersion blank_patch (signed_in ''u1'') (run setup_calls empty_db))
     = Inr (VersionData (Some (bank_version\<lparr>version_rawContent := []\<rparr>)))"
    by simp
  show ?thesis by (intro conjI c1 c2 c3)
qed

subsection \<open>The ownership chain of a script element\<close>

text \<open>
  Every action on script elements resolves the claimed ScriptVersion under the claimed
  Script for the caller before anything else, and a ScriptVersion stored under another
  Script does not resolve. Listing returns the elements of the claimed ScriptVersion only,
  and creating stores the claimed \<open>scriptVersionId\<close>.
\<close>

lemma getOwnedVersion_other_script:
  assumes "\<forall>v \<in> set (ScriptVersions d). version_id v = vid \<longrightarrow> version_scriptId v \<noteq> sid"
  shows "\<exists>m. getOwnedVersion d vid sid uid = Inl (ActionError NOT_FOUND m)"
proof (cases "getOwnedScript d sid uid")
  case (Inl e)
  then show ?thesis by (auto simp: getOwnedVersion_def dest: getOwnedScript_Inl)
next
  case (Inr s)
  from assms have "\<forall>v \<in> set (ScriptVersions d). \<not> (version_id v = vid \<and> version_scriptId v = sid)"
    by blast
  from getOwnedVersion_no_row [OF this Inr] show ?thesis by blast
qed

lemma element_actions_resolve_version:
  "(createScriptElement now uuid ic ctx d = (Inr r, d') \<longrightarrow>
      (\<exists>u v. requireUser ctx = Inr u \<and>
         getOwnedVersion d (ce_scriptVersionId ic) (ce_scriptId ic) (user_id u) = Inr v)) \<and>
   (updateScriptElement iu ctx d = (Inr r, d') \<longrightarrow>
      (\<exists>u v. requireUser ctx = Inr u \<and>
         getOwnedVersion d (ue_scriptVersionId iu) (ue_scriptId iu) (user_id u) = Inr v)) \<and>
   (deleteScriptElement idl ctx d = (Inr r, d') \<longrightarrow>
      (\<exists>u v. requireUser ctx = Inr u \<and>
         getOwnedVersion d (de_scriptVersionId idl) (de_scriptId idl) (user_id u) = Inr v)) \<and>
   (listScriptElements il ctx d = (Inr r, d') \<longrightarrow>
      (\<exists>u v. requireUser ctx = Inr u \<and>
         getOwnedVersion d (le_scriptVersionId il) (le_scriptId il) (user_id u) = Inr v))"
  by (auto simp: createScriptElement_def updateScriptElement_def deleteScriptElement_def
      listScriptElements_def defineAction_def createScriptElement_handler_def
      updateScriptElement_handler_def deleteScriptElement_handler_def
      listScriptElements_handler_def Let_def
      split: sum.splits option.splits prod.splits if_splits)

lemma listScriptElements_claimed_version:
  assumes "listScriptElements il ctx d = (Inr r, d')"
  shows "d' = d \<and>
    r = ElementItems
          (filter (\<lambda>e. element_scriptVersionId e = le_scriptVersionId il) (ScriptElements d))
          (length (filter (\<lambda>e. element_scriptVersionId e = le_scriptVersionId il)
                     (ScriptElements d)))"
  using assms
  by (auto simp: listScriptElements_def defineAction_def listScriptElements_handler_def
      db_select_def Let_def split: sum.splits if_splits)

lemma createScriptElement_claimed_version:
  assumes "createScriptElement now uuid ic ctx d = (Inr r, d')"
  shows "\<exists>e. r = ElementData (Some e) \<and> element_scriptVersionId e = ce_scriptVersionId ic \<and>
           element_id e = uuid \<and> d' = d\<lparr>ScriptElements := ScriptElements d @ [e]\<rparr>"
  using assms
  by (auto simp: createScriptElement_def defineAction_def createScriptElement_handler_def
      db_insert_def split: sum.splits if_splits)

text \<open>
  Claim C1 fails on \<open>updateScriptElement\<close> and \<open>deleteScriptElement\<close>. In the worked
  store the only ScriptElement belongs to ScriptVersion v1 of the first caller, and the
  second caller cannot resolve v1. The second caller names their own Script s2 and
  ScriptVersion v2, which resolve, together with the element's id: the delete succeeds and
  removes the element, and the update succeeds and rewrites its content, although the
  element's own \<open>scriptVersionId\<close> is v1 and not the v2 of the request.
\<close>

theorem element_written_under_foreign_version:
  "run setup_calls empty_db = two_tenants \<and>
   ScriptElements two_tenants = [bank_element] \<and>
   element_id bank_element = de_id foreign_delete \<and>
   element_id bank_element = ue_id foreign_patch \<and>
   element_scriptVersionId bank_element = ''v1'' \<and>
   de_scriptVersionId foreign_delete = ''v2'' \<and>
   ue_scriptVersionId foreign_patch = ''v2'' \<and>
   getOwnedVersion two_tenants ''v1'' ''s1'' ''u2''
     = Inl (ActionError NOT_FOUND ''Script not found.'') \<and>
   getOwnedVersion two_tenants ''v2'' ''s2'' ''u2'' = Inr road_version \<and>
   deleteScriptElement foreign_delete (signed_in ''u2'') two_tenants
     = (Inr Success, two_tenants\<lparr>ScriptElements := []\<rparr>) \<and>
   updateScriptElement foreign_patch (signed_in ''u2'') two_tenants
     = (Inr (ElementData (Some (bank_element\<lparr>element_content := ''EXT. ROAD''\<rparr>))),
        two_tenants\<lparr>ScriptElements := [bank_element\<lparr>element_content := ''EXT. ROAD''\<rparr>]\<rparr>)"
proof (intro conjI)
  show "run setup_calls empty_db = two_tenants" by (rule run_setup_calls)
  show "ScriptElements two_tenants = [bank_element]" by (simp add: two_tenants_def)
  show "element_id bank_element = de_id foreign_delete"
    by (simp add: bank_element_def foreign_delete_def)
  show "element_id bank_element = ue_id foreign_patch"
    by (simp add: bank_element_def foreign_patch_def)
  show "element_scriptVersionId bank_element = ''v1''" by (simp add: bank_element_def)
  show "de_scriptVersionId foreign_delete = ''v2''" by (simp add: foreign_delete_def)
  show "ue_scriptVersionId foreign_patch = ''v2''" by (simp add: foreign_patch_def)
  show "getOwnedVersion two_tenants ''v1'' ''s1'' ''u2''
     = Inl (ActionError NOT_FOUND ''Script not found.'')"
    by (rule getOwnedVersion_bank_foreign)
  show "getOwnedVersion two_tenants ''v2'' ''s2'' ''u2'' = Inr road_version"
    by (rule getOwnedVersion_road)
  show "deleteScriptElement foreign_delete (signed_in ''u2'') two_tenants
     = (Inr Success, two_tenants\<lparr>ScriptElements := []\<rparr>)"
    by (rule deleteScriptElement_foreign)
  show "updateScriptElement foreign_patch (signed_in ''u2'') two_tenants
     = (Inr (ElementData (Some (bank_element\<lparr>element_content := ''EXT. ROAD''\<rparr>))),
        two_tenants\<lparr>ScriptElements := [bank_element\<lparr>element_content := ''EXT. ROAD''\<rparr>]\<rparr>)"
    by (rule updateScriptElement_foreign)
qed

theorem element_written_under_foreign_version_witness:
  "fst (deleteScriptElement foreign_delete (signed_in ''u2'') (run setup_calls empty_db))
     = Inr Success \<and>
   ScriptElements (snd (deleteScriptElement foreign_delete (signed_in ''u2'')
                          (run setup_calls empty_db))) = [] \<and>
   map element_content
     (ScriptElements (snd (updateScriptElement foreign_patch (signed_in ''u2'')
                             (run setup_calls empty_db)))) = [''EXT. ROAD'']"
  using element_written_under_foreign_version by simp

end
